theory Spec2Isabelle
  imports Complex_Main "HOL-Library.Log_Nat"
begin

section \<open>Data model\<close>

text \<open>
  A \<open>Position\<close> is used by the library only through its components 0 and 1, so a point
  is a pair of coordinates. \<open>AffineParams\<close> is the 6-tuple \<open>[A, B, C, D, E, F]\<close>.
  JavaScript numbers are modelled as exact reals: the development states what the
  formulas of the code compute. The rounding of double precision is modelled
  separately, for the two functions of \<open>transform.ts\<close>.
\<close>

type_synonym point = "real \<times> real"

type_synonym AffineParams = "real \<times> real \<times> real \<times> real \<times> real \<times> real"

text \<open>
  Every \<open>throw new Error(...)\<close> of the sources becomes one constructor, named after the
  failure it reports. \<open>TypeError\<close>, \<open>DimensionError\<close> and \<open>IndexError\<close> are the run-time
  errors of the language and of the matrix library; \<open>ProjectionError\<close> is a failure of
  the projection engine.
\<close>

datatype error =
    LengthMismatchError
  | InsufficientPointsError
  | UnknownModeError
  | SingularFitError
  | DegenerateGeometryError
  | SingularTransformError
  | TypeError
  | DimensionError
  | IndexError
  | ProjectionError

text \<open>The literal \<open>1e-15\<close> of the degeneracy tests.\<close>

definition tiny :: real where
  "tiny = 1 / 10 ^ 15"

section \<open>transform.ts\<close>

text \<open>
  \<open>forwardAffine\<close> has no branch, and rounding only perturbs its value. \<open>inverseAffine\<close>
  branches on the determinant it computes, so its two evaluations are kept apart:
  \<open>inverseAffine_real\<close> is the function read in real arithmetic, the reading that the
  round-trip property names, and \<open>inverseAffine_f64\<close> below is the function as it runs,
  in double precision.
\<close>

fun forwardAffine :: "AffineParams \<Rightarrow> point \<Rightarrow> point" where
  "forwardAffine (A, B, C, D, E, F) (x, y) =
     (let X = A * x + B * y + C;
          Y = D * x + E * y + F
      in (X, Y))"

fun inverseAffine_real :: "AffineParams \<Rightarrow> point \<Rightarrow> error + point" where
  "inverseAffine_real (A, B, C, D, E, F) (X, Y) =
     (let det = A * E - B * D in
      if \<bar>det\<bar> < tiny then Inl SingularTransformError
      else
        let Xc = X - C;
            Yf = Y - F;
            x = (E * Xc - B * Yf) / det;
            y = (- D * Xc + A * Yf) / det
        in Inr (x, y))"

subsection \<open>The same functions in double precision\<close>

text \<open>
  JavaScript numbers are IEEE 754 doubles: every arithmetic operation returns the exact
  result rounded to the nearest number with a 53-bit significand, ties going to the even
  significand. \<open>fl64\<close> is that rounding on the reals, with no bound on the exponent: it
  agrees with the hardware wherever no overflow and no subnormal number occurs. \<open>ilog2 a\<close>
  is the exponent \<open>k\<close> with \<open>2^k \<le> a < 2^(k + 1)\<close> of a positive \<open>a\<close>. The two functions
  of \<open>transform.ts\<close> follow with each operation rounded, in the order in which the
  expressions are evaluated; negation and absolute value are exact.
\<close>

definition pow2 :: "int \<Rightarrow> real" where
  "pow2 k = (if 0 \<le> k then 2 ^ nat k else 1 / 2 ^ nat (- k))"

definition ilog2 :: "real \<Rightarrow> int" where
  "ilog2 a =
     (if 1 \<le> a then bitlen \<lfloor>a\<rfloor> - 1
      else
        let r = 1 / a;
            b = bitlen \<lfloor>r\<rfloor> - 1
        in if r = pow2 b then - b else - b - 1)"

definition round_half_even :: "real \<Rightarrow> int" where
  "round_half_even r =
     (let f = \<lfloor>r\<rfloor>;
          d = r - of_int f
      in if d < 1 / 2 then f
         else if 1 / 2 < d then f + 1
         else if even f then f else f + 1)"

definition fl64 :: "real \<Rightarrow> real" where
  "fl64 x =
     (if x = 0 then 0
      else
        let q = pow2 (ilog2 \<bar>x\<bar> - 52)
        in of_int (round_half_even (x / q)) * q)"


fun inverseAffine_f64 :: "AffineParams \<Rightarrow> point \<Rightarrow> error + point" where
  "inverseAffine_f64 (A, B, C, D, E, F) (X, Y) =
     (let det = fl64 (fl64 (A * E) - fl64 (B * D)) in
      if \<bar>det\<bar> < fl64 tiny then Inl SingularTransformError
      else
        let Xc = fl64 (X - C);
            Yf = fl64 (Y - F);
            x = fl64 (fl64 (fl64 (E * Xc) - fl64 (B * Yf)) / det);
            y = fl64 (fl64 (fl64 (- D * Xc) + fl64 (A * Yf)) / det)
        in Inr (x, y))"

section \<open>rmse.ts\<close>

text \<open>
  The accumulation loop \<open>for (i = 0; i < n; i++) sumSqDiff += dx*dx + dy*dy\<close>, as a
  left fold over the indices; the two arrays have \<open>n\<close> elements where it runs.
\<close>

definition sumSqDiff :: "point list \<Rightarrow> point list \<Rightarrow> nat \<Rightarrow> real" where
  "sumSqDiff observedPoints predictedPoints n =
     foldl (\<lambda>acc i.
        let dx = fst (observedPoints ! i) - fst (predictedPoints ! i);
            dy = snd (observedPoints ! i) - snd (predictedPoints ! i)
        in acc + (dx * dx + dy * dy)) 0 [0..<n]"

definition computeRMSE :: "point list \<Rightarrow> point list \<Rightarrow> error + real" where
  "computeRMSE observedPoints predictedPoints =
     (let n = length observedPoints in
      if n = 0 \<or> n \<noteq> length predictedPoints then Inl LengthMismatchError
      else
        let mse = sumSqDiff observedPoints predictedPoints n / real n;
            rmse = sqrt mse
        in Inr rmse)"

section \<open>The matrix library\<close>

text \<open>
  \<open>compute.ts\<close> calls mathjs for \<open>transpose\<close>, \<open>multiply\<close>, \<open>inv\<close> and \<open>get\<close> on dense
  matrices, here lists of rows. \<open>multiply\<close> and \<open>get\<close> raise on a shape or index that
  does not fit. \<open>inv\<close> is not part of the repository: the estimator takes it as the
  parameter \<open>math_inv\<close>, which may fail, and every theorem about the estimator holds for
  each such function.
\<close>

type_synonym matrix = "real list list"

definition then_do :: "error + 'a \<Rightarrow> ('a \<Rightarrow> error + 'b) \<Rightarrow> error + 'b" where
  "then_do r f = (case r of Inl e \<Rightarrow> Inl e | Inr v \<Rightarrow> f v)"

definition mat_transpose :: "matrix \<Rightarrow> matrix" where
  "mat_transpose m = transpose m"

definition mat_multiply :: "matrix \<Rightarrow> matrix \<Rightarrow> error + matrix" where
  "mat_multiply a b =
     (if list_all (\<lambda>row. length row = length b) a
      then Inr (map (\<lambda>row. map (\<lambda>col. sum_list (map2 (*) row col)) (transpose b)) a)
      else Inl DimensionError)"

definition mat_get :: "matrix \<Rightarrow> nat \<Rightarrow> nat \<Rightarrow> error + real" where
  "mat_get m i j =
     (if i < length m \<and> j < length (m ! i) then Inr (m ! i ! j) else Inl IndexError)"

section \<open>compute.ts\<close>

subsection \<open>General affine fit\<close>

definition computeAffine6 ::
  "(matrix \<Rightarrow> error + matrix) \<Rightarrow> point list \<Rightarrow> point list \<Rightarrow> error + AffineParams" where
  "computeAffine6 math_inv imgPts mapPts =
     (let n = length imgPts;
          M = concat (map (\<lambda>i. case imgPts ! i of (x, y) \<Rightarrow>
                 [[x, y, 1, 0, 0, 0], [0, 0, 0, x, y, 1]]) [0..<n]);
          V = concat (map (\<lambda>i. case mapPts ! i of (X, Y) \<Rightarrow> [[X], [Y]]) [0..<n]);
          Mt = mat_transpose M
      in then_do (mat_multiply Mt M) (\<lambda>MtM.
         then_do (math_inv MtM) (\<lambda>invMtM.
         then_do (mat_multiply Mt V) (\<lambda>MtV.
         then_do (mat_multiply invMtM MtV) (\<lambda>p.
         then_do (mat_get p 0 0) (\<lambda>A.
         then_do (mat_get p 1 0) (\<lambda>B.
         then_do (mat_get p 2 0) (\<lambda>C.
         then_do (mat_get p 3 0) (\<lambda>D.
         then_do (mat_get p 4 0) (\<lambda>E.
         then_do (mat_get p 5 0) (\<lambda>F.
           Inr (A, B, C, D, E, F))))))))))))"

subsection \<open>Similarity fit\<close>

text \<open>
  \<open>Math.atan2(y, x)\<close> over the reals, by the quadrant of \<open>(x, y)\<close>; at the origin the
  result is the one for two positive zeros.
\<close>

definition atan2 :: "real \<Rightarrow> real \<Rightarrow> real" where
  "atan2 y x =
     (if 0 < x then arctan (y / x)
      else if x < 0 then (if 0 \<le> y then arctan (y / x) + pi else arctan (y / x) - pi)
      else if 0 < y then pi / 2
      else if y < 0 then - (pi / 2)
      else 0)"

text \<open>The first loop of \<open>computeSimilarCore\<close>: the four coordinate sums.\<close>

definition centroidSums :: "point list \<Rightarrow> point list \<Rightarrow> nat \<Rightarrow> real \<times> real \<times> real \<times> real" where
  "centroidSums imgPts mapPts n =
     foldl (\<lambda>(sumX_img, sumY_img, sumX_map, sumY_map) i.
        (sumX_img + fst (imgPts ! i), sumY_img + snd (imgPts ! i),
         sumX_map + fst (mapPts ! i), sumY_map + snd (mapPts ! i)))
       (0, 0, 0, 0) [0..<n]"

text \<open>The third loop: \<open>bigA\<close>, \<open>bigB\<close> and \<open>bigC\<close> over the shifted points.\<close>

definition procrustesSums :: "point list \<Rightarrow> point list \<Rightarrow> nat \<Rightarrow> real \<times> real \<times> real" where
  "procrustesSums shiftedImg shiftedMap n =
     foldl (\<lambda>(bigA, bigB, bigC) i.
        let ix = fst (shiftedImg ! i);
            iy = snd (shiftedImg ! i);
            mX = fst (shiftedMap ! i);
            mY = snd (shiftedMap ! i)
        in (bigA + (ix * mX + iy * mY), bigB + (ix * mY - iy * mX), bigC + (ix * ix + iy * iy)))
       (0, 0, 0) [0..<n]"

text \<open>The sums of the third loop for a pair of inputs, after centring on the centroids.\<close>

definition similarSums :: "point list \<Rightarrow> point list \<Rightarrow> real \<times> real \<times> real" where
  "similarSums imgPts mapPts =
     (let n = length imgPts in
      case centroidSums imgPts mapPts n of (sumX_img, sumY_img, sumX_map, sumY_map) \<Rightarrow>
        let cx_img = sumX_img / real n;
            cy_img = sumY_img / real n;
            cx_map = sumX_map / real n;
            cy_map = sumY_map / real n;
            shiftedImg = map (\<lambda>i. (fst (imgPts ! i) - cx_img, snd (imgPts ! i) - cy_img)) [0..<n];
            shiftedMap = map (\<lambda>i. (fst (mapPts ! i) - cx_map, snd (mapPts ! i) - cy_map)) [0..<n]
        in procrustesSums shiftedImg shiftedMap n)"

definition computeSimilarCore :: "point list \<Rightarrow> point list \<Rightarrow> error + AffineParams" where
  "computeSimilarCore imgPts mapPts =
     (let n = length imgPts in
      case centroidSums imgPts mapPts n of (sumX_img, sumY_img, sumX_map, sumY_map) \<Rightarrow>
        let cx_img = sumX_img / real n;
            cy_img = sumY_img / real n;
            cx_map = sumX_map / real n;
            cy_map = sumY_map / real n
        in case similarSums imgPts mapPts of (bigA, bigB, bigC) \<Rightarrow>
          if \<bar>bigC\<bar> < tiny then Inl DegenerateGeometryError
          else
            let theta = atan2 bigB bigA;
                norm = sqrt (bigA * bigA + bigB * bigB);
                s = norm / bigC;
                cosT = cos theta;
                sinT = sin theta;
                rx = cosT * cx_img - sinT * cy_img;
                ry = sinT * cx_img + cosT * cy_img;
                tx = cx_map - s * rx;
                ty = cy_map - s * ry;
                A = s * cosT;
                B = - s * sinT;
                D = s * sinT;
                E = s * cosT;
                C = tx;
                F = ty
            in Inr (A, B, C, D, E, F))"

definition flipY :: "point list \<Rightarrow> point list" where
  "flipY imgPts = map (\<lambda>pt. (fst pt, - snd pt)) imgPts"

fun convertFlipParam :: "AffineParams \<Rightarrow> AffineParams" where
  "convertFlipParam (p0, p1, p2, p3, p4, p5) = (p0, - p1, p2, p3, - p4, p5)"

fun sumOfSquaredResiduals :: "AffineParams \<Rightarrow> point list \<Rightarrow> point list \<Rightarrow> real" where
  "sumOfSquaredResiduals (a0, a1, a2, a3, a4, a5) imgPts mapPts =
     foldl (\<lambda>sse i.
        case imgPts ! i of (x, y) \<Rightarrow>
        case mapPts ! i of (X, Y) \<Rightarrow>
          let Xp = a0 * x + a1 * y + a2;
              Yp = a3 * x + a4 * y + a5;
              dx = X - Xp;
              dy = Y - Yp
          in sse + (dx * dx + dy * dy)) 0 [0..<length imgPts]"

text \<open>
  Both core fits run before the \<open>switch\<close> on \<open>yAxisMode\<close>, so a failure of either one
  is raised in every mode. Every value other than \<open>'same'\<close> and \<open>'opposite'\<close> falls to
  the \<open>'auto'\<close> branch, which shares its code with \<open>default\<close>.
\<close>

definition computeSimilarAsAffine :: "point list \<Rightarrow> point list \<Rightarrow> string \<Rightarrow> error + AffineParams" where
  "computeSimilarAsAffine imgPts mapPts yAxisMode =
     then_do (computeSimilarCore imgPts mapPts) (\<lambda>paramNoFlip.
     then_do (computeSimilarCore (flipY imgPts) mapPts) (\<lambda>paramFlip.
       if yAxisMode = ''same'' then Inr paramNoFlip
       else if yAxisMode = ''opposite'' then Inr (convertFlipParam paramFlip)
       else
         let paramA = paramNoFlip;
             errA = sumOfSquaredResiduals paramA imgPts mapPts;
             paramB = convertFlipParam paramFlip;
             errB = sumOfSquaredResiduals paramB imgPts mapPts
         in Inr (if errA \<le> errB then paramA else paramB)))"

subsection \<open>Fit without rotation\<close>

definition computeNoShearCore ::
  "(matrix \<Rightarrow> error + matrix) \<Rightarrow> point list \<Rightarrow> point list \<Rightarrow> error + AffineParams" where
  "computeNoShearCore math_inv imgPts mapPts =
     (let n = length imgPts;
          M = concat (map (\<lambda>i. case imgPts ! i of (x, y) \<Rightarrow> [[x, 1, 0], [y, 0, 1]]) [0..<n]);
          V = concat (map (\<lambda>i. case mapPts ! i of (X, Y) \<Rightarrow> [[X], [Y]]) [0..<n]);
          Mt = mat_transpose M
      in then_do (mat_multiply Mt M) (\<lambda>MtM.
         then_do (math_inv MtM) (\<lambda>invMtM.
         then_do (mat_multiply Mt V) (\<lambda>MtV.
         then_do (mat_multiply invMtM MtV) (\<lambda>p.
         then_do (mat_get p 0 0) (\<lambda>A'.
         then_do (mat_get p 1 0) (\<lambda>C'.
         then_do (mat_get p 2 0) (\<lambda>F'.
           Inr (A', 0, C', 0, A', F')))))))))"

definition computeNoShearAsAffine ::
  "(matrix \<Rightarrow> error + matrix) \<Rightarrow> point list \<Rightarrow> point list \<Rightarrow> string \<Rightarrow> error + AffineParams" where
  "computeNoShearAsAffine math_inv imgPts mapPts yAxisMode =
     then_do (computeNoShearCore math_inv imgPts mapPts) (\<lambda>paramA.
     then_do (computeNoShearCore math_inv (flipY imgPts) mapPts) (\<lambda>paramFlip'.
       let paramB = convertFlipParam paramFlip' in
       if yAxisMode = ''same'' then Inr paramA
       else if yAxisMode = ''opposite'' then Inr paramB
       else
         let errA = sumOfSquaredResiduals paramA imgPts mapPts;
             errB = sumOfSquaredResiduals paramB imgPts mapPts
         in Inr (if errA \<le> errB then paramA else paramB)))"

subsection \<open>Entry point\<close>

text \<open>
  \<open>mode\<close> and \<open>yAxisMode\<close> are strings at run time; the \<open>default\<close> branch of the
  \<open>switch\<close> on \<open>mode\<close> raises. The warning that \<open>computeAffine6\<close> prints for fewer than
  three points changes no result and is left out.
\<close>

definition computeTransformParams ::
  "(matrix \<Rightarrow> error + matrix) \<Rightarrow> point list \<Rightarrow> point list \<Rightarrow> string \<Rightarrow> string
     \<Rightarrow> error + AffineParams" where
  "computeTransformParams math_inv imagePoints mapPoints mode yAxisMode =
     (let n = length imagePoints in
      if n < 2 then Inl InsufficientPointsError
      else if length mapPoints \<noteq> n then Inl LengthMismatchError
      else if mode = ''affine'' then computeAffine6 math_inv imagePoints mapPoints
      else if mode = ''similar'' then computeSimilarAsAffine imagePoints mapPoints yAxisMode
      else if mode = ''noshear'' then computeNoShearAsAffine math_inv imagePoints mapPoints yAxisMode
      else Inl UnknownModeError)"

section \<open>find_best.ts\<close>

subsection \<open>Objects used as dictionaries\<close>

text \<open>
  \<open>rmse\<close> is a plain object keyed by CRS identifier, holding numbers. Assigning to a
  key that exists keeps its place; a new key is appended. The key \<open>__proto__\<close> is the
  prototype accessor of every plain object: assigning a number to it is ignored and
  creates no key. \<open>Object.keys\<close> lists first the keys that are array indices
  (canonical decimal numerals below \<open>2^32 - 1\<close>) in ascending numeric order, then the
  other keys in the order of their creation.
\<close>

fun obj_put :: "(string \<times> 'v) list \<Rightarrow> string \<Rightarrow> 'v \<Rightarrow> (string \<times> 'v) list" where
  "obj_put [] k v = [(k, v)]"
| "obj_put ((k', v') # obj) k v =
     (if k' = k then (k', v) # obj else (k', v') # obj_put obj k v)"

definition obj_set :: "(string \<times> real) list \<Rightarrow> string \<Rightarrow> real \<Rightarrow> (string \<times> real) list" where
  "obj_set obj k v = (if k = ''__proto__'' then obj else obj_put obj k v)"

definition is_digit :: "char \<Rightarrow> bool" where
  "is_digit c = ((48::nat) \<le> of_char c \<and> of_char c \<le> (57::nat))"

definition numeral_value :: "string \<Rightarrow> nat" where
  "numeral_value s = foldl (\<lambda>acc c. 10 * acc + (of_char c - (48::nat))) 0 s"

definition is_array_index :: "string \<Rightarrow> bool" where
  "is_array_index s =
     (s \<noteq> [] \<and> list_all is_digit s \<and> (length s = 1 \<or> hd s \<noteq> CHR ''0'')
      \<and> numeral_value s < 4294967295)"

definition object_keys :: "(string \<times> 'v) list \<Rightarrow> string list" where
  "object_keys obj =
     sort_key numeral_value (filter is_array_index (map fst obj))
       @ filter (\<lambda>k. \<not> is_array_index k) (map fst obj)"

text \<open>
  \<open>rmse[a] < rmse[b]\<close>: a comparison that involves \<open>undefined\<close> is false.
\<close>

fun js_less :: "real option \<Rightarrow> real option \<Rightarrow> bool" where
  "js_less (Some x) (Some y) = (x < y)"
| "js_less _ _ = False"

text \<open>\<open>Array.prototype.reduce\<close> without an initial value raises on an empty array.\<close>

definition array_reduce :: "('a \<Rightarrow> 'a \<Rightarrow> 'a) \<Rightarrow> 'a list \<Rightarrow> error + 'a" where
  "array_reduce f ks = (case ks of [] \<Rightarrow> Inl TypeError | k # rest \<Rightarrow> Inr (foldl f k rest))"

subsection \<open>The projection engine\<close>

text \<open>
  proj4 is an external engine with a registry of named definitions. The registry is a
  map from names to definition strings; \<open>proj4.defs(name)\<close> reads it and
  \<open>proj4.defs(name, def)\<close> writes it. \<open>proj4List\<close> is the lookup table of proj4-list,
  and \<open>forward defs crs point\<close> stands for \<open>proj4(crs).forward(point)\<close> under the
  registry \<open>defs\<close>; both are parameters. Destructuring a missing table entry raises
  \<open>TypeError\<close>.
\<close>

type_synonym registry = "string \<rightharpoonup> string"

fun map_result :: "('a \<Rightarrow> error + 'b) \<Rightarrow> 'a list \<Rightarrow> error + 'b list" where
  "map_result f [] = Inr []"
| "map_result f (x # xs) =
     then_do (f x) (\<lambda>y. then_do (map_result f xs) (\<lambda>ys. Inr (y # ys)))"

subsection \<open>Scoring the candidates\<close>

text \<open>
  One pass of the loop body for the candidate \<open>crs\<close>. The objects \<open>mapPoints\<close>,
  \<open>affineParams\<close> and \<open>assumedMapPoints\<close> are written and read under the key of the
  current pass only, so they are local values here; \<open>rmse\<close> is kept by the loop.
\<close>

definition scoreCandidate ::
  "(matrix \<Rightarrow> error + matrix) \<Rightarrow> (string \<rightharpoonup> string \<times> string)
     \<Rightarrow> (registry \<Rightarrow> string \<Rightarrow> point \<Rightarrow> error + point)
     \<Rightarrow> point list \<Rightarrow> point list \<Rightarrow> string \<Rightarrow> string
     \<Rightarrow> registry \<Rightarrow> string \<Rightarrow> error + registry \<times> real" where
  "scoreCandidate math_inv proj4List forward lnglatPoints imagePoints mode yAxisMode defs crs =
     then_do
       (if defs crs = None
        then (case proj4List crs of
                None \<Rightarrow> Inl TypeError
              | Some (code, defn) \<Rightarrow> Inr (defs(code \<mapsto> defn)))
        else Inr defs) (\<lambda>defs'.
     then_do (map_result (forward defs' crs) lnglatPoints) (\<lambda>mapPts.
     then_do (computeTransformParams math_inv imagePoints mapPts mode yAxisMode) (\<lambda>params.
       let assumed = map (forwardAffine params) imagePoints in
       then_do (computeRMSE mapPts assumed) (\<lambda>r. Inr (defs', r)))))"

fun scoreLoop ::
  "(matrix \<Rightarrow> error + matrix) \<Rightarrow> (string \<rightharpoonup> string \<times> string)
     \<Rightarrow> (registry \<Rightarrow> string \<Rightarrow> point \<Rightarrow> error + point)
     \<Rightarrow> point list \<Rightarrow> point list \<Rightarrow> string \<Rightarrow> string
     \<Rightarrow> registry \<Rightarrow> (string \<times> real) list \<Rightarrow> string list
     \<Rightarrow> error + registry \<times> (string \<times> real) list" where
  "scoreLoop math_inv proj4List forward lnglatPoints imagePoints mode yAxisMode defs rmse [] =
     Inr (defs, rmse)"
| "scoreLoop math_inv proj4List forward lnglatPoints imagePoints mode yAxisMode defs rmse (crs # rest) =
     then_do (scoreCandidate math_inv proj4List forward lnglatPoints imagePoints mode yAxisMode defs crs)
       (\<lambda>(defs', r).
          scoreLoop math_inv proj4List forward lnglatPoints imagePoints mode yAxisMode
            defs' (obj_set rmse crs r) rest)"

definition findBestCRS ::
  "(matrix \<Rightarrow> error + matrix) \<Rightarrow> (string \<rightharpoonup> string \<times> string)
     \<Rightarrow> (registry \<Rightarrow> string \<Rightarrow> point \<Rightarrow> error + point) \<Rightarrow> registry
     \<Rightarrow> point list \<Rightarrow> point list \<Rightarrow> string list \<Rightarrow> string \<Rightarrow> string
     \<Rightarrow> error + string" where
  "findBestCRS math_inv proj4List forward defs lnglatPoints imagePoints crses mode yAxisMode =
     (if length lnglatPoints \<noteq> length imagePoints then Inl LengthMismatchError
      else
        then_do (scoreLoop math_inv proj4List forward lnglatPoints imagePoints mode yAxisMode
                   defs [] crses)
          (\<lambda>(defs', rmse).
             array_reduce
               (\<lambda>a b. if js_less (map_of rmse a) (map_of rmse b) then a else b)
               (object_keys rmse)))"

section \<open>Instances for the examples\<close>

text \<open>
  The inverse that \<open>math.inv\<close> computes, in exact arithmetic: the adjugate over the
  determinant, with a failure on a matrix that is not square or whose determinant is
  zero. It instantiates the parameter \<open>math_inv\<close> in the concrete examples below.
\<close>

definition drop_col :: "nat \<Rightarrow> matrix \<Rightarrow> matrix" where
  "drop_col j m = map (\<lambda>row. take j row @ drop (Suc j) row) m"

definition drop_row :: "nat \<Rightarrow> matrix \<Rightarrow> matrix" where
  "drop_row i m = take i m @ drop (Suc i) m"

function det :: "matrix \<Rightarrow> real" where
  "det [] = 1"
| "det (row # rows) =
     sum_list (map (\<lambda>j. (- 1) ^ j * (row ! j) * det (drop_col j rows)) [0..<length row])"
  by pat_completeness auto
termination
  by (relation "measure length") (auto simp: drop_col_def)

definition exact_inv :: "matrix \<Rightarrow> error + matrix" where
  "exact_inv m =
     (let n = length m in
      if \<not> list_all (\<lambda>row. length row = n) m then Inl DimensionError
      else if det m = 0 then Inl SingularFitError
      else Inr (map (\<lambda>i. map (\<lambda>j. (- 1) ^ (i + j) * det (drop_col i (drop_row j m)) / det m)
                  [0..<n]) [0..<n]))"

text \<open>
  A projection engine for the examples: a name registered with the definition
  \<open>id\<close> projects every point to itself, any other registered name doubles the second
  coordinate, and a name that is not registered makes the engine fail.
\<close>

definition stub_forward :: "registry \<Rightarrow> string \<Rightarrow> point \<Rightarrow> error + point" where
  "stub_forward defs crs pt =
     (case defs crs of
        None \<Rightarrow> Inl ProjectionError
      | Some defn \<Rightarrow> if defn = ''id'' then Inr pt else Inr (fst pt, 2 * snd pt))"

section \<open>Auxiliary facts\<close>


lemma then_do_Inr_iff:
  "then_do r f = Inr y \<longleftrightarrow> (\<exists>v. r = Inr v \<and> f v = Inr y)"
  by (cases r) (simp_all add: then_do_def)

lemma then_do_Inr [simp]: "then_do (Inr v) f = f v"
  by (simp add: then_do_def)

lemma then_do_Inl [simp]: "then_do (Inl e) f = Inl e"
  by (simp add: then_do_def)

lemma foldl_add_upt:
  fixes f :: "nat \<Rightarrow> real"
  shows "foldl (\<lambda>acc i. acc + f i) a [0..<n] = a + (\<Sum>i<n. f i)"
  by (induction n) simp_all

lemma sumSqDiff_sum:
  "sumSqDiff obs prd n =
     (\<Sum>i<n. (fst (obs ! i) - fst (prd ! i))\<^sup>2 + (snd (obs ! i) - snd (prd ! i))\<^sup>2)"
  unfolding sumSqDiff_def Let_def
  using foldl_add_upt [of "\<lambda>i. (fst (obs ! i) - fst (prd ! i)) * (fst (obs ! i) - fst (prd ! i))
      + (snd (obs ! i) - snd (prd ! i)) * (snd (obs ! i) - snd (prd ! i))" 0 n]
  by (simp add: power2_eq_square)

lemma sumSqDiff_nonneg: "0 \<le> sumSqDiff obs prd n"
  unfolding sumSqDiff_sum by (rule sum_nonneg) simp

lemma sumSqDiff_same: "sumSqDiff P P n = 0"
  unfolding sumSqDiff_sum by simp

lemma computeNoShearCore_form:
  assumes "computeNoShearCore math_inv imgPts mapPts = Inr p"
  shows "\<exists>A C F. p = (A, 0, C, 0, A, F)"
  using assms unfolding computeNoShearCore_def Let_def then_do_Inr_iff by blast

lemma similar_same:
  "computeSimilarAsAffine imgPts mapPts ''same'' = Inr r \<longleftrightarrow>
     computeSimilarCore imgPts mapPts = Inr r
       \<and> (\<exists>q. computeSimilarCore (flipY imgPts) mapPts = Inr q)"
  unfolding computeSimilarAsAffine_def then_do_Inr_iff
  by (simp del: split_paired_Ex; blast)

lemma similar_opposite:
  "computeSimilarAsAffine imgPts mapPts ''opposite'' = Inr r \<longleftrightarrow>
     (\<exists>pA. computeSimilarCore imgPts mapPts = Inr pA)
       \<and> (\<exists>q. computeSimilarCore (flipY imgPts) mapPts = Inr q \<and> r = convertFlipParam q)"
  unfolding computeSimilarAsAffine_def then_do_Inr_iff 
  by (simp del: split_paired_Ex; blast)

lemma similar_auto:
  "computeSimilarAsAffine imgPts mapPts ''auto'' = Inr r \<longleftrightarrow>
     (\<exists>pA q. computeSimilarCore imgPts mapPts = Inr pA
        \<and> computeSimilarCore (flipY imgPts) mapPts = Inr q
        \<and> r = (if sumOfSquaredResiduals pA imgPts mapPts
                    \<le> sumOfSquaredResiduals (convertFlipParam q) imgPts mapPts
               then pA else convertFlipParam q))"
  unfolding computeSimilarAsAffine_def then_do_Inr_iff Let_def 
  by (simp del: split_paired_Ex; blast)

lemma noshear_same:
  "computeNoShearAsAffine math_inv imgPts mapPts ''same'' = Inr r \<longleftrightarrow>
     computeNoShearCore math_inv imgPts mapPts = Inr r
       \<and> (\<exists>q. computeNoShearCore math_inv (flipY imgPts) mapPts = Inr q)"
  unfolding computeNoShearAsAffine_def then_do_Inr_iff Let_def
  by (simp del: split_paired_Ex; blast)

lemma noshear_opposite:
  "computeNoShearAsAffine math_inv imgPts mapPts ''opposite'' = Inr r \<longleftrightarrow>
     (\<exists>pA. computeNoShearCore math_inv imgPts mapPts = Inr pA)
       \<and> (\<exists>q. computeNoShearCore math_inv (flipY imgPts) mapPts = Inr q \<and> r = convertFlipParam q)"
  unfolding computeNoShearAsAffine_def then_do_Inr_iff Let_def 
  by (simp del: split_paired_Ex; blast)

lemma noshear_auto:
  "computeNoShearAsAffine math_inv imgPts mapPts ''auto'' = Inr r \<longleftrightarrow>
     (\<exists>pA q. computeNoShearCore math_inv imgPts mapPts = Inr pA
        \<and> computeNoShearCore math_inv (flipY imgPts) mapPts = Inr q
        \<and> r = (if sumOfSquaredResiduals pA imgPts mapPts
                    \<le> sumOfSquaredResiduals (convertFlipParam q) imgPts mapPts
               then pA else convertFlipParam q))"
  unfolding computeNoShearAsAffine_def then_do_Inr_iff Let_def 
  by (simp del: split_paired_Ex; blast)

lemma params_similar:
  "computeTransformParams math_inv imgPts mapPts ''similar'' y = Inr r \<longleftrightarrow>
     2 \<le> length imgPts \<and> length mapPts = length imgPts
       \<and> computeSimilarAsAffine imgPts mapPts y = Inr r"
  by (simp add: computeTransformParams_def Let_def not_less)

lemma params_noshear:
  "computeTransformParams math_inv imgPts mapPts ''noshear'' y = Inr r \<longleftrightarrow>
     2 \<le> length imgPts \<and> length mapPts = length imgPts
       \<and> computeNoShearAsAffine math_inv imgPts mapPts y = Inr r"
  by (simp add: computeTransformParams_def Let_def not_less)


lemma sumOfSquaredResiduals_sum:
  "sumOfSquaredResiduals p imgPts mapPts =
     (\<Sum>i<length imgPts. (fst (mapPts ! i) - fst (forwardAffine p (imgPts ! i)))\<^sup>2
                         + (snd (mapPts ! i) - snd (forwardAffine p (imgPts ! i)))\<^sup>2)"
proof -
  obtain a0 a1 a2 a3 a4 a5 where p: "p = (a0, a1, a2, a3, a4, a5)"
    by (cases p) auto
  have fw: "forwardAffine (a0, a1, a2, a3, a4, a5) q
      = (a0 * fst q + a1 * snd q + a2, a3 * fst q + a4 * snd q + a5)" for q
    by (cases q) simp
  have "sumOfSquaredResiduals p imgPts mapPts =
      foldl (\<lambda>acc i. acc +
        ((fst (mapPts ! i) - (a0 * fst (imgPts ! i) + a1 * snd (imgPts ! i) + a2))
          * (fst (mapPts ! i) - (a0 * fst (imgPts ! i) + a1 * snd (imgPts ! i) + a2))
        + (snd (mapPts ! i) - (a3 * fst (imgPts ! i) + a4 * snd (imgPts ! i) + a5))
          * (snd (mapPts ! i) - (a3 * fst (imgPts ! i) + a4 * snd (imgPts ! i) + a5))))
        0 [0..<length imgPts]"
    unfolding p sumOfSquaredResiduals.simps Let_def case_prod_unfold ..
  also have "\<dots> = (\<Sum>i<length imgPts.
        (fst (mapPts ! i) - (a0 * fst (imgPts ! i) + a1 * snd (imgPts ! i) + a2))
          * (fst (mapPts ! i) - (a0 * fst (imgPts ! i) + a1 * snd (imgPts ! i) + a2))
        + (snd (mapPts ! i) - (a3 * fst (imgPts ! i) + a4 * snd (imgPts ! i) + a5))
          * (snd (mapPts ! i) - (a3 * fst (imgPts ! i) + a4 * snd (imgPts ! i) + a5)))"
    by (simp only: foldl_add_upt add_0)
  also have "\<dots> = (\<Sum>i<length imgPts. (fst (mapPts ! i) - fst (forwardAffine p (imgPts ! i)))\<^sup>2
                         + (snd (mapPts ! i) - snd (forwardAffine p (imgPts ! i)))\<^sup>2)"
    unfolding p fw by (simp only: power2_eq_square fst_conv snd_conv)
  finally show ?thesis .
qed


text \<open>
  A worked example for the fit without rotation: the image points \<open>(0, 0), (1, 1)\<close>
  against the map points \<open>(0, 0), (1, - 1)\<close>, whose Y axis runs the other way.
\<close>

lemma noshear_example_same:
  "computeNoShearCore exact_inv [(0, 0), (1, 1)] [(0, 0), (1, - 1)] = Inr (0, 0, 1 / 2, 0, 0, - (1 / 2))"
  by code_simp

lemma noshear_example_flip:
  "computeNoShearCore exact_inv (flipY [(0, 0), (1, 1)]) [(0, 0), (1, - 1)] = Inr (1, 0, 0, 0, 1, 0)"
  by code_simp

lemma example_lengths:
  "2 \<le> length [(0, 0), (1, 1 :: real)]
     \<and> length [(0, 0), (1, - 1 :: real)] = length [(0, 0), (1, 1 :: real)]"
  by simp

lemma residual_example_same:
  "sumOfSquaredResiduals (0, 0, 1 / 2, 0, 0, - (1 / 2)) [(0, 0), (1, 1)] [(0, 0), (1, - 1)] = 1"
  by code_simp

lemma residual_example_flip:
  "sumOfSquaredResiduals (1, 0, 0, 0, - 1, 0) [(0, 0), (1, 1)] [(0, 0), (1, - 1)] = 0"
  by code_simp

lemma params_example_same:
  "computeTransformParams exact_inv [(0, 0), (1, 1)] [(0, 0), (1, - 1)] ''noshear'' ''same''
     = Inr (0, 0, 1 / 2, 0, 0, - (1 / 2))"
  by (simp add: computeTransformParams_def computeNoShearAsAffine_def
      noshear_example_same noshear_example_flip)

lemma params_example_opposite:
  "computeTransformParams exact_inv [(0, 0), (1, 1)] [(0, 0), (1, - 1)] ''noshear'' ''opposite''
     = Inr (1, 0, 0, 0, - 1, 0)"
  by (simp add: computeTransformParams_def computeNoShearAsAffine_def
      noshear_example_same noshear_example_flip)












text \<open>
  The reduction over the keys, the score object, and the loop of \<open>findBestCRS\<close>.
\<close>

lemma foldl_pick_mem:
  "foldl (\<lambda>a b. if P a b then a else b) a ks \<in> set (a # ks)"
  by (induction ks rule: rev_induct) auto

lemma foldl_pick_last_min:
  fixes g :: "'a \<Rightarrow> real"
  assumes "\<forall>k\<in>set (a # ks). m k = Some (g k)"
  shows "\<exists>pre post.
     a # ks = pre @ foldl (\<lambda>a b. if js_less (m a) (m b) then a else b) a ks # post
     \<and> (\<forall>k\<in>set pre. g (foldl (\<lambda>a b. if js_less (m a) (m b) then a else b) a ks) \<le> g k)
     \<and> (\<forall>k\<in>set post. g (foldl (\<lambda>a b. if js_less (m a) (m b) then a else b) a ks) < g k)"
  using assms
proof (induction ks rule: rev_induct)
  case Nil
  have "[a] = [] @ a # []" by simp
  then show ?case by force
next
  case (snoc b ks)
  let ?pick = "\<lambda>a b. if js_less (m a) (m b) then a else b"
  let ?c = "foldl ?pick a ks"
  from snoc.prems have all: "\<forall>k\<in>set (a # ks). m k = Some (g k)" and mb: "m b = Some (g b)"
    by simp_all
  from snoc.IH [OF all] obtain pre post where
    dec: "a # ks = pre @ ?c # post" and
    pre: "\<forall>k\<in>set pre. g ?c \<le> g k" and
    post: "\<forall>k\<in>set post. g ?c < g k"
    by blast
  have "?c \<in> set (a # ks)" by (rule foldl_pick_mem)
  with all have mc: "m ?c = Some (g ?c)" by blast
  show ?case
  proof (cases "g ?c < g b")
    case True
    then have res: "foldl ?pick a (ks @ [b]) = ?c"
      by (simp add: mc mb)
    have "a # ks @ [b] = pre @ ?c # (post @ [b])"
      using dec by simp
    moreover have "\<forall>k\<in>set (post @ [b]). g ?c < g k"
      using post True by simp
    ultimately show ?thesis
      unfolding res using pre by blast
  next
    case False
    then have res: "foldl ?pick a (ks @ [b]) = b"
      by (simp add: mc mb)
    have d: "a # ks @ [b] = (a # ks) @ b # []"
      by simp
    have "\<forall>k\<in>set (a # ks). g b \<le> g k"
    proof
      fix k assume "k \<in> set (a # ks)"
      then have "k \<in> set pre \<or> k = ?c \<or> k \<in> set post"
        unfolding dec by auto
      with pre post False show "g b \<le> g k"
        by force
    qed
    with d show ?thesis
      unfolding res by (metis empty_iff empty_set)
  qed
qed

lemma map_fst_obj_put:
  "map fst (obj_put t k v) = (if k \<in> fst ` set t then map fst t else map fst t @ [k])"
  by (induction t) force+

lemma map_of_obj_put:
  "map_of (obj_put t k v) = (map_of t)(k \<mapsto> v)"
  by (induction t) (auto simp: fun_eq_iff)

lemma set_obj_put:
  "set (obj_put t k v) \<subseteq> insert (k, v) (set t)"
  by (induction t) (auto split: if_splits)

lemma distinct_obj_put:
  "distinct (map fst t) \<Longrightarrow> distinct (map fst (obj_put t k v))"
  by (simp add: map_fst_obj_put)

lemma set_object_keys: "set (object_keys t) = fst ` set t"
  by (auto simp: object_keys_def)

lemma object_keys_plain:
  assumes "\<forall>k\<in>fst ` set t. \<not> is_array_index k"
  shows "object_keys t = map fst t"
proof -
  have a: "filter is_array_index (map fst t) = []"
    using assms by (auto simp: filter_empty_conv)
  have b: "filter (\<lambda>k. \<not> is_array_index k) (map fst t) = map fst t"
    using assms by (auto simp: filter_id_conv)
  show ?thesis
    unfolding object_keys_def a b by simp
qed


lemma scoreLoop_Cons:
  "scoreLoop I L W g im mo y d t (crs # rest) = Inr res \<longleftrightarrow>
     (\<exists>d1 r. scoreCandidate I L W g im mo y d crs = Inr (d1, r)
        \<and> scoreLoop I L W g im mo y d1 (obj_set t crs r) rest = Inr res)"
  unfolding scoreLoop.simps then_do_Inr_iff by auto

lemma fst_set_obj_set:
  "fst ` set (obj_set t k v) = fst ` set t \<union> ({k} - {''__proto__''})"
proof -
  have "set (map fst (obj_put t k v)) = insert k (fst ` set t)"
    unfolding map_fst_obj_put by auto
  then have "fst ` set (obj_put t k v) = insert k (fst ` set t)"
    by simp
  then show ?thesis
    unfolding obj_set_def by auto
qed

lemma distinct_obj_set:
  "distinct (map fst t) \<Longrightarrow> distinct (map fst (obj_set t k v))"
  by (simp add: obj_set_def distinct_obj_put)

lemma scoreLoop_keys:
  "scoreLoop I L W g im mo y d t crses = Inr (d', t') \<Longrightarrow>
     fst ` set t' = fst ` set t \<union> (set crses - {''__proto__''})"
proof (induction crses arbitrary: d t)
  case Nil
  then show ?case by simp
next
  case (Cons crs rest)
  from Cons.prems obtain d1 r where
    rest: "scoreLoop I L W g im mo y d1 (obj_set t crs r) rest = Inr (d', t')"
    unfolding scoreLoop_Cons by blast
  from Cons.IH [OF rest] show ?case
    unfolding fst_set_obj_set by auto
qed

lemma scoreLoop_distinct:
  "scoreLoop I L W g im mo y d t crses = Inr (d', t') \<Longrightarrow> distinct (map fst t) \<Longrightarrow>
     distinct (map fst t')"
proof (induction crses arbitrary: d t)
  case Nil
  then show ?case by simp
next
  case (Cons crs rest)
  from Cons.prems(1) obtain d1 r where
    rest: "scoreLoop I L W g im mo y d1 (obj_set t crs r) rest = Inr (d', t')"
    unfolding scoreLoop_Cons by blast
  from Cons.IH [OF rest distinct_obj_set [OF Cons.prems(2)]] show ?case .
qed

lemma scoreLoop_order:
  "scoreLoop I L W g im mo y d t crses = Inr (d', t') \<Longrightarrow> distinct crses \<Longrightarrow>
     ''__proto__'' \<notin> set crses \<Longrightarrow> set crses \<inter> fst ` set t = {} \<Longrightarrow>
     map fst t' = map fst t @ crses"
proof (induction crses arbitrary: d t)
  case Nil
  then show ?case by simp
next
  case (Cons crs rest)
  from Cons.prems(1) obtain d1 r where
    rest: "scoreLoop I L W g im mo y d1 (obj_set t crs r) rest = Inr (d', t')"
    unfolding scoreLoop_Cons by blast
  from Cons.prems have new: "crs \<notin> fst ` set t" and np: "crs \<noteq> ''__proto__''"
    by auto
  have keys: "map fst (obj_set t crs r) = map fst t @ [crs]"
    using new np by (simp add: obj_set_def map_fst_obj_put)
  have disj: "set rest \<inter> fst ` set (obj_set t crs r) = {}"
    using Cons.prems unfolding fst_set_obj_set by auto
  from Cons.prems have "distinct rest" and "''__proto__'' \<notin> set rest"
    by simp_all
  from Cons.IH [OF rest this disj] show ?case
    unfolding keys by simp
qed

lemma scoreLoop_values:
  "scoreLoop I L W g im mo y d t crses = Inr (d', t') \<Longrightarrow> (k, r) \<in> set t' \<Longrightarrow>
     (k, r) \<in> set t \<or>
     (k \<in> set crses \<and> (\<exists>d0 d1. scoreCandidate I L W g im mo y d0 k = Inr (d1, r)))"
proof (induction crses arbitrary: d t)
  case Nil
  then show ?case by simp
next
  case (Cons crs rest)
  from Cons.prems(1) obtain d1 r1 where
    cand: "scoreCandidate I L W g im mo y d crs = Inr (d1, r1)" and
    rest: "scoreLoop I L W g im mo y d1 (obj_set t crs r1) rest = Inr (d', t')"
    unfolding scoreLoop_Cons by blast
  from Cons.IH [OF rest Cons.prems(2)]
  consider "(k, r) \<in> set (obj_set t crs r1)"
    | "k \<in> set rest \<and> (\<exists>d0 d1. scoreCandidate I L W g im mo y d0 k = Inr (d1, r))"
    by blast
  then show ?case
  proof cases
    case 1
    then have "(k, r) \<in> set t \<or> (k, r) = (crs, r1)"
      using set_obj_put [of t crs r1] unfolding obj_set_def by (auto split: if_splits)
    with cand show ?thesis by auto
  next
    case 2
    then show ?thesis by auto
  qed
qed

lemma scoreCandidate_pipeline:
  assumes "scoreCandidate I L W g im mo y d k = Inr (d1, r)"
  shows "\<exists>mapPts params.
     map_result (W d1 k) g = Inr mapPts
     \<and> computeTransformParams I im mapPts mo y = Inr params
     \<and> computeRMSE mapPts (map (forwardAffine params) im) = Inr r"
  using assms unfolding scoreCandidate_def then_do_Inr_iff Let_def
  by (simp del: split_paired_Ex; blast)

text \<open>
  Two worked runs of the scorer over the candidates \<open>A\<close> and \<open>B\<close>, with two control
  points: one in which both names project alike, one in which \<open>B\<close> stretches the
  second coordinate.
\<close>

lemma scoreCandidate_eval:
  assumes "(if defs crs = None
        then (case proj4List crs of
                None \<Rightarrow> Inl TypeError
              | Some (code, defn) \<Rightarrow> Inr (defs(code \<mapsto> defn)))
        else Inr defs) = Inr d1"
    and "map_result (forward d1 crs) lnglatPoints = Inr mapPts"
    and "computeTransformParams math_inv imagePoints mapPts mode yAxisMode = Inr params"
    and "computeRMSE mapPts (map (forwardAffine params) imagePoints) = Inr r"
  shows "scoreCandidate math_inv proj4List forward lnglatPoints imagePoints mode yAxisMode defs crs
     = Inr (d1, r)"
  unfolding scoreCandidate_def assms(1) then_do_Inr assms(2) assms(3) Let_def assms(4) ..

lemma identity_core:
  "computeNoShearCore exact_inv [(0, 0), (1, 1)] [(0, 0), (1, 1)] = Inr (1, 0, 0, 0, 1, 0)"
  by code_simp

lemma identity_core_flip:
  "computeNoShearCore exact_inv (flipY [(0, 0), (1, 1)]) [(0, 0), (1, 1)]
     = Inr (0, 0, 1 / 2, 0, 0, 1 / 2)"
  by code_simp

lemma stretch_core:
  "computeNoShearCore exact_inv [(0, 0), (1, 1)] [(0, 0), (1, 2)]
     = Inr (3 / 2, 0, - (1 / 4), 0, 3 / 2, 1 / 4)"
  by code_simp

lemma stretch_core_flip:
  "computeNoShearCore exact_inv (flipY [(0, 0), (1, 1)]) [(0, 0), (1, 2)]
     = Inr (- (1 / 2), 0, 3 / 4, 0, - (1 / 2), 3 / 4)"
  by code_simp

lemma identity_params:
  "computeTransformParams exact_inv [(0, 0), (1, 1)] [(0, 0), (1, 1)] ''noshear'' ''same''
     = Inr (1, 0, 0, 0, 1, 0)"
  by (simp add: computeTransformParams_def computeNoShearAsAffine_def
      identity_core identity_core_flip)

lemma stretch_params:
  "computeTransformParams exact_inv [(0, 0), (1, 1)] [(0, 0), (1, 2)] ''noshear'' ''same''
     = Inr (3 / 2, 0, - (1 / 4), 0, 3 / 2, 1 / 4)"
  by (simp add: computeTransformParams_def computeNoShearAsAffine_def
      stretch_core stretch_core_flip)

lemma identity_rmse:
  "computeRMSE [(0, 0), (1, 1)] (map (forwardAffine (1, 0, 0, 0, 1, 0)) [(0, 0), (1, 1)]) = Inr 0"
  by (simp add: computeRMSE_def sumSqDiff_sum lessThan_Suc numeral_2_eq_2)

lemma stretch_rmse:
  "computeRMSE [(0, 0), (1, 2)]
     (map (forwardAffine (3 / 2, 0, - (1 / 4), 0, 3 / 2, 1 / 4)) [(0, 0), (1, 1)])
     = Inr (sqrt (1 / 8))"
  by (simp add: computeRMSE_def sumSqDiff_sum lessThan_Suc numeral_2_eq_2 power2_eq_square)


lemma tie_candidate:
  assumes "crs = ''A'' \<or> crs = ''B''"
  shows "scoreCandidate exact_inv Map.empty stub_forward [(0, 0), (1, 1)] [(0, 0), (1, 1)]
     ''noshear'' ''same'' [''A'' \<mapsto> ''id'', ''B'' \<mapsto> ''id''] crs
     = Inr ([''A'' \<mapsto> ''id'', ''B'' \<mapsto> ''id''], 0)"
proof (rule scoreCandidate_eval [OF _ _ identity_params identity_rmse])
  show "(if [''A'' \<mapsto> ''id'', ''B'' \<mapsto> ''id''] crs = None
        then (case Map.empty crs of
                None \<Rightarrow> Inl TypeError
              | Some (code, defn) \<Rightarrow> Inr ([''A'' \<mapsto> ''id'', ''B'' \<mapsto> ''id''](code \<mapsto> defn)))
        else Inr [''A'' \<mapsto> ''id'', ''B'' \<mapsto> ''id'']) = Inr [''A'' \<mapsto> ''id'', ''B'' \<mapsto> ''id'']"
    using assms by auto
  show "map_result (stub_forward [''A'' \<mapsto> ''id'', ''B'' \<mapsto> ''id''] crs) [(0, 0), (1, 1)]
     = Inr [(0, 0), (1, 1)]"
    using assms by (auto simp: stub_forward_def)
qed

lemma tie_loop:
  "scoreLoop exact_inv Map.empty stub_forward [(0, 0), (1, 1)] [(0, 0), (1, 1)]
     ''noshear'' ''same'' [''A'' \<mapsto> ''id'', ''B'' \<mapsto> ''id''] [] [''A'', ''B'']
     = Inr ([''A'' \<mapsto> ''id'', ''B'' \<mapsto> ''id''], [(''A'', 0), (''B'', 0)])"
  by (simp add: tie_candidate obj_set_def)

lemma stretch_candidate_A:
  "scoreCandidate exact_inv [''A'' \<mapsto> (''A'', ''id''), ''B'' \<mapsto> (''B'', ''stretch'')] stub_forward
     [(0, 0), (1, 1)] [(0, 0), (1, 1)] ''noshear'' ''same'' Map.empty ''A''
     = Inr ([''A'' \<mapsto> ''id''], 0)"
  by (rule scoreCandidate_eval [OF _ _ identity_params identity_rmse])
    (simp_all add: stub_forward_def)

lemma stretch_candidate_B:
  "scoreCandidate exact_inv [''A'' \<mapsto> (''A'', ''id''), ''B'' \<mapsto> (''B'', ''stretch'')] stub_forward
     [(0, 0), (1, 1)] [(0, 0), (1, 1)] ''noshear'' ''same'' [''A'' \<mapsto> ''id''] ''B''
     = Inr ([''A'' \<mapsto> ''id'', ''B'' \<mapsto> ''stretch''], sqrt (1 / 8))"
  by (rule scoreCandidate_eval [OF _ _ stretch_params stretch_rmse])
    (simp_all add: stub_forward_def)

lemma stretch_loop:
  "scoreLoop exact_inv [''A'' \<mapsto> (''A'', ''id''), ''B'' \<mapsto> (''B'', ''stretch'')] stub_forward
     [(0, 0), (1, 1)] [(0, 0), (1, 1)] ''noshear'' ''same'' Map.empty [] [''A'', ''B'']
     = Inr ([''A'' \<mapsto> ''id'', ''B'' \<mapsto> ''stretch''], [(''A'', 0), (''B'', sqrt (1 / 8))])"
  by (simp add: stretch_candidate_A stretch_candidate_B obj_set_def)

text \<open>The rounding function: exponent bounds and the half-unit error.\<close>

lemma pow2_pos: "0 < pow2 k"
  by (simp add: pow2_def)

lemma pow2_Suc: "pow2 (k + 1) = 2 * pow2 k"
proof (cases "0 \<le> k")
  case True
  then show ?thesis by (simp add: pow2_def nat_add_distrib)
next
  case False
  then have k: "k < 0" by simp
  show ?thesis
  proof (cases "k = - 1")
    case True
    then show ?thesis by (simp add: pow2_def)
  next
    case False
    with k have k2: "k + 1 < 0" by simp
    have "nat (- k) = Suc (nat (- (k + 1)))" using k by simp
    then show ?thesis using k k2 by (simp add: pow2_def)
  qed
qed

lemma floor_bitlen_bounds:
  fixes r :: real
  assumes "1 \<le> r"
  shows "2 ^ nat (bitlen \<lfloor>r\<rfloor> - 1) \<le> r \<and> r < 2 ^ nat (bitlen \<lfloor>r\<rfloor>)"
    and "0 \<le> bitlen \<lfloor>r\<rfloor> - 1"
proof -
  let ?n = "\<lfloor>r\<rfloor>"
  from assms have n: "0 < ?n" by simp
  from bitlen_bounds [OF n] have lo: "2 ^ nat (bitlen ?n - 1) \<le> ?n" and hi: "?n < 2 ^ nat (bitlen ?n)"
    by simp_all
  from lo have "(2::real) ^ nat (bitlen ?n - 1) \<le> of_int ?n"
    by (metis of_int_le_iff of_int_numeral of_int_power)
  also have "\<dots> \<le> r" by simp
  finally have a: "2 ^ nat (bitlen ?n - 1) \<le> r" .
  from hi have "?n + 1 \<le> 2 ^ nat (bitlen ?n)" by simp
  then have "of_int (?n + 1) \<le> (2::real) ^ nat (bitlen ?n)"
    by (metis of_int_le_iff of_int_numeral of_int_power)
  moreover have "r < of_int (?n + 1)" by linarith
  ultimately have b: "r < 2 ^ nat (bitlen ?n)" by linarith
  from a b show "2 ^ nat (bitlen \<lfloor>r\<rfloor> - 1) \<le> r \<and> r < 2 ^ nat (bitlen \<lfloor>r\<rfloor>)" by blast
  from n show "0 \<le> bitlen \<lfloor>r\<rfloor> - 1"
    by (simp add: bitlen_alt_def)
qed

lemma ilog2_bounds:
  assumes "0 < a"
  shows "pow2 (ilog2 a) \<le> a \<and> a < pow2 (ilog2 a + 1)"
proof (cases "1 \<le> a")
  case True
  let ?b = "bitlen \<lfloor>a\<rfloor> - 1"
  from floor_bitlen_bounds [OF True] have
    lo: "2 ^ nat ?b \<le> a" and hi: "a < 2 ^ nat (bitlen \<lfloor>a\<rfloor>)" and b0: "0 \<le> ?b"
    by simp_all
  have e: "ilog2 a = ?b" using True by (simp add: ilog2_def)
  have hi': "a < 2 * 2 ^ nat ?b"
  proof -
    have "nat (bitlen \<lfloor>a\<rfloor>) = Suc (nat ?b)" using b0 by simp
    with hi show ?thesis by simp
  qed
  have p: "pow2 ?b = 2 ^ nat ?b" using b0 by (simp add: pow2_def)
  from lo hi' show ?thesis
    unfolding e pow2_Suc p by simp
next
  case False
  define r where "r = 1 / a"
  from False assms have r1: "1 \<le> r" unfolding r_def by simp
  from assms have a: "a = 1 / r" unfolding r_def by simp
  from r1 have rpos: "0 < r" by simp
  let ?b = "bitlen \<lfloor>r\<rfloor> - 1"
  from floor_bitlen_bounds [OF r1] have
    lo: "2 ^ nat ?b \<le> r" and hi: "r < 2 ^ nat (bitlen \<lfloor>r\<rfloor>)" and b0: "0 \<le> ?b"
    by simp_all
  have hi': "r < 2 * 2 ^ nat ?b"
  proof -
    have "nat (bitlen \<lfloor>r\<rfloor>) = Suc (nat ?b)" using b0 by simp
    with hi show ?thesis by simp
  qed
  have p: "pow2 ?b = 2 ^ nat ?b" using b0 by (simp add: pow2_def)
  have pm: "pow2 (- ?b) = 1 / 2 ^ nat ?b"
  proof (cases "?b = 0")
    case True
    then show ?thesis by (simp add: pow2_def)
  next
    case False
    with b0 have "\<not> 0 \<le> - ?b" by simp
    then show ?thesis unfolding pow2_def by simp
  qed
  show ?thesis
  proof (cases "r = pow2 ?b")
    case True
    have e: "ilog2 a = - ?b"
      using False True unfolding ilog2_def r_def [symmetric] by (simp add: Let_def)
    note rv = True [unfolded p]
    have av: "a = pow2 (- ?b)"
      unfolding pm a by (rule arg_cong [where f = "\<lambda>t. 1 / t", OF rv])
    show ?thesis
      unfolding e pow2_Suc using av pow2_pos [of "- ?b"] by simp
  next
    case neq: False
    have e: "ilog2 a = - ?b - 1"
      using False neq unfolding ilog2_def r_def [symmetric] by (simp add: Let_def)
    from lo neq have lo': "2 ^ nat ?b < r" unfolding p by simp
    have up: "a < pow2 (- ?b)"
      unfolding pm a using lo' rpos by (simp add: field_simps)
    have "pow2 (- ?b) = 2 * pow2 (- ?b - 1)"
      using pow2_Suc [of "- ?b - 1"] by simp
    then have "pow2 (- ?b - 1) = 1 / (2 * 2 ^ nat ?b)"
      unfolding pm by simp
    moreover have "1 / (2 * 2 ^ nat ?b) < 1 / r"
      using hi' rpos by (simp add: field_simps)
    ultimately have low: "pow2 (- ?b - 1) \<le> a"
      unfolding a by simp
    from low up show ?thesis
      unfolding e by simp
  qed
qed

lemma round_half_even_error: "\<bar>of_int (round_half_even r) - r\<bar> \<le> 1 / 2"
  unfolding round_half_even_def Let_def by (auto; linarith)

lemma fl64_error:
  assumes "x \<noteq> 0"
  shows "\<bar>fl64 x - x\<bar> \<le> pow2 (ilog2 \<bar>x\<bar> - 53)"
proof -
  define q where "q = pow2 (ilog2 \<bar>x\<bar> - 52)"
  have q: "0 < q" unfolding q_def by (rule pow2_pos)
  have half: "pow2 (ilog2 \<bar>x\<bar> - 53) = q / 2"
    using pow2_Suc [of "ilog2 \<bar>x\<bar> - 53"] unfolding q_def by simp
  have "fl64 x - x = (of_int (round_half_even (x / q)) - x / q) * q"
    using assms q unfolding fl64_def q_def [symmetric] Let_def by (simp add: algebra_simps)
  then have "\<bar>fl64 x - x\<bar> = \<bar>of_int (round_half_even (x / q)) - x / q\<bar> * q"
    using q by (simp add: abs_mult)
  also have "\<dots> \<le> (1 / 2) * q"
    using round_half_even_error [of "x / q"] q by (intro mult_right_mono) simp_all
  finally show ?thesis unfolding half by simp
qed


lemma representable_example:
  "fl64 1 = 1 \<and> fl64 0 = 0 \<and> fl64 (2 ^ 60) = 2 ^ 60"
  by code_simp

lemma fl64_small_examples:
  "\<bar>fl64 (fl64 (0 * 0) - fl64 (0 * 0))\<bar> < fl64 tiny"
  "\<not> \<bar>fl64 (fl64 (2 * 4) - fl64 (0 * 0))\<bar> < fl64 tiny"
  "fl64 (fl64 (fl64 (4 * fl64 (3 - 1)) - fl64 (0 * fl64 (9 - 1))) / fl64 (fl64 (2 * 4) - fl64 (0 * 0))) = 1"
  "fl64 (fl64 (fl64 (- 0 * fl64 (3 - 1)) + fl64 (2 * fl64 (9 - 1))) / fl64 (fl64 (2 * 4) - fl64 (0 * 0))) = 2"
  by code_simp+

section \<open>Forward and inverse application\<close>




text \<open>
  Claim C7, as amended. \<open>inverseAffine\<close> raises, with the singular-transform error,
  exactly when the determinant as it computes it, the rounded difference of the rounded
  products \<open>A * E\<close> and \<open>B * D\<close>, is in absolute value below the double nearest to
  \<open>1e-15\<close>. Otherwise it returns \<open>x = (E * (X - C) - B * (Y - F)) / det\<close> and
  \<open>y = (- D * (X - C) + A * (Y - F)) / det\<close> with that determinant, each operation rounded.
  Read in real arithmetic, the function raises exactly when \<open>\<bar>A * E - B * D\<bar> < 1e-15\<close> and
  otherwise returns these two quotients exactly.
\<close>

theorem inverseAffine_singular_iff:
  "((\<exists>e. inverseAffine_f64 (A, B, C, D, E, F) (X, Y) = Inl e)
      \<longleftrightarrow> \<bar>fl64 (fl64 (A * E) - fl64 (B * D))\<bar> < fl64 tiny) \<and>
   (\<bar>fl64 (fl64 (A * E) - fl64 (B * D))\<bar> < fl64 tiny \<longrightarrow>
      inverseAffine_f64 (A, B, C, D, E, F) (X, Y) = Inl SingularTransformError) \<and>
   (\<not> \<bar>fl64 (fl64 (A * E) - fl64 (B * D))\<bar> < fl64 tiny \<longrightarrow>
      inverseAffine_f64 (A, B, C, D, E, F) (X, Y) =
        Inr (fl64 (fl64 (fl64 (E * fl64 (X - C)) - fl64 (B * fl64 (Y - F)))
                   / fl64 (fl64 (A * E) - fl64 (B * D))),
             fl64 (fl64 (fl64 (- D * fl64 (X - C)) + fl64 (A * fl64 (Y - F)))
                   / fl64 (fl64 (A * E) - fl64 (B * D))))) \<and>
   ((\<exists>e. inverseAffine_real (A, B, C, D, E, F) (X, Y) = Inl e) \<longleftrightarrow> \<bar>A * E - B * D\<bar> < tiny) \<and>
   (\<bar>A * E - B * D\<bar> < tiny \<longrightarrow>
      inverseAffine_real (A, B, C, D, E, F) (X, Y) = Inl SingularTransformError) \<and>
   (\<not> \<bar>A * E - B * D\<bar> < tiny \<longrightarrow>
      inverseAffine_real (A, B, C, D, E, F) (X, Y) =
        Inr ((E * (X - C) - B * (Y - F)) / (A * E - B * D),
             (- D * (X - C) + A * (Y - F)) / (A * E - B * D)))"
  by (simp add: Let_def)

theorem inverseAffine_singular_iff_witness:
  "inverseAffine_f64 (0, 0, 1, 0, 0, 1) (2, 3) = Inl SingularTransformError \<and>
   inverseAffine_f64 (2, 0, 1, 0, 4, 1) (3, 9) = Inr (1, 2)"
proof -
  note s = inverseAffine_singular_iff [of 0 0 1 0 0 1 2 3]
  note r = inverseAffine_singular_iff [of 2 0 1 0 4 1 3 9]
  from s fl64_small_examples(1)
  have a: "inverseAffine_f64 (0, 0, 1, 0, 0, 1) (2, 3) = Inl SingularTransformError"
    by blast
  from r fl64_small_examples(2)
  have "inverseAffine_f64 (2, 0, 1, 0, 4, 1) (3, 9) =
        Inr (fl64 (fl64 (fl64 (4 * fl64 (3 - 1)) - fl64 (0 * fl64 (9 - 1)))
                   / fl64 (fl64 (2 * 4) - fl64 (0 * 0))),
             fl64 (fl64 (fl64 (- 0 * fl64 (3 - 1)) + fl64 (2 * fl64 (9 - 1)))
                   / fl64 (fl64 (2 * 4) - fl64 (0 * 0))))"
    by blast
  then have b: "inverseAffine_f64 (2, 0, 1, 0, 4, 1) (3, 9) = Inr (1, 2)"
    unfolding fl64_small_examples(3) fl64_small_examples(4) .
  from a b show ?thesis by blast
qed

text \<open>
  Claim C7 as stated fails on the exact determinant. For
  \<open>A = E = 2^27 + 1\<close>, \<open>B = 2^27\<close>, \<open>D = 2^27 + 2\<close> the determinant is \<open>1\<close>, yet the product
  \<open>A * E = 2^54 + 2^28 + 1\<close> is rounded to \<open>2^54 + 2^28 = B * D\<close>, the computed determinant
  is \<open>0\<close>, and the function raises.
\<close>

theorem inverseAffine_exact_det_counterexample:
  "\<not> \<bar>134217729 * 134217729 - 134217728 * 134217730 :: real\<bar> < tiny \<and>
   inverseAffine_f64 (134217729, 134217728, 0, 134217730, 134217729, 0) (1, 1)
     = Inl SingularTransformError"
  by code_simp

section \<open>The RMSE evaluator\<close>

text \<open>
  Claim C8. \<open>computeRMSE\<close> raises the length-mismatch error exactly when the two
  lengths differ or are zero. Otherwise it returns the square root of the mean, over
  the index-paired points, of \<open>dx\<^sup>2 + dy\<^sup>2\<close>. A non-empty sequence scored against itself
  gives \<open>0\<close>, and a returned value is never negative.
\<close>

theorem computeRMSE_spec:
  "((\<exists>e. computeRMSE obs prd = Inl e) \<longleftrightarrow> (length obs \<noteq> length prd \<or> length obs = 0)) \<and>
   (length obs \<noteq> length prd \<or> length obs = 0 \<longrightarrow> computeRMSE obs prd = Inl LengthMismatchError) \<and>
   (length obs = length prd \<and> length obs \<noteq> 0 \<longrightarrow>
      computeRMSE obs prd =
        Inr (sqrt ((\<Sum>i<length obs. (fst (obs ! i) - fst (prd ! i))\<^sup>2
                                      + (snd (obs ! i) - snd (prd ! i))\<^sup>2) / real (length obs)))) \<and>
   (P \<noteq> [] \<longrightarrow> computeRMSE P P = Inr 0) \<and>
   (\<forall>r. computeRMSE obs prd = Inr r \<longrightarrow> 0 \<le> r)"
proof -
  have nonneg: "0 \<le> sumSqDiff obs prd (length obs) / real (length obs)"
    using sumSqDiff_nonneg [of obs prd "length obs"] by simp
  show ?thesis
    using nonneg
    by (auto simp: computeRMSE_def Let_def sumSqDiff_sum [symmetric] sumSqDiff_same)
qed

theorem computeRMSE_spec_witness:
  "computeRMSE [(0, 0), (3, 4)] [(0, 0), (0, 0)] = Inr (sqrt (25 / 2)) \<and>
   computeRMSE [(1, 2)] [(1, 2)] = Inr 0 \<and>
   computeRMSE [(1, 2)] [] = Inl LengthMismatchError \<and>
   computeRMSE [] [] = Inl LengthMismatchError"
  using computeRMSE_spec [of "[(0, 0), (3, 4)]" "[(0, 0), (0, 0)]" "[(1, 2)]"]
    computeRMSE_spec [of "[(1, 2)]" "[]" "[]"] computeRMSE_spec [of "[]" "[]" "[]"]
  by (simp add: lessThan_Suc numeral_2_eq_2)

section \<open>The transform estimator\<close>

text \<open>
  Claim C9. \<open>computeTransformParams\<close> raises the insufficient-points error when the
  image sequence has fewer than two points; the length-mismatch error when both
  sequences have at least two points and their lengths differ; and the unknown-mode
  error when the lengths are equal and at least two and the mode is none of
  \<open>'affine'\<close>, \<open>'similar'\<close>, \<open>'noshear'\<close>. No parameters are returned in these cases.
\<close>

theorem computeTransformParams_errors:
  "(length imagePoints < 2 \<longrightarrow>
      computeTransformParams math_inv imagePoints mapPoints mode yAxisMode
        = Inl InsufficientPointsError) \<and>
   (2 \<le> length imagePoints \<and> 2 \<le> length mapPoints \<and> length mapPoints \<noteq> length imagePoints \<longrightarrow>
      computeTransformParams math_inv imagePoints mapPoints mode yAxisMode
        = Inl LengthMismatchError) \<and>
   (2 \<le> length imagePoints \<and> length mapPoints = length imagePoints
      \<and> mode \<noteq> ''affine'' \<and> mode \<noteq> ''similar'' \<and> mode \<noteq> ''noshear'' \<longrightarrow>
      computeTransformParams math_inv imagePoints mapPoints mode yAxisMode
        = Inl UnknownModeError)"
  by (simp add: computeTransformParams_def Let_def)

theorem computeTransformParams_errors_witness:
  "computeTransformParams exact_inv [(0, 0)] [(0, 0)] ''affine'' ''auto'' = Inl InsufficientPointsError \<and>
   computeTransformParams exact_inv [(0, 0), (1, 1)] [(0, 0), (1, 1), (2, 2)] ''affine'' ''auto''
     = Inl LengthMismatchError \<and>
   computeTransformParams exact_inv [(0, 0), (1, 1)] [(0, 0), (1, 1)] ''helmert'' ''auto''
     = Inl UnknownModeError"
  using computeTransformParams_errors [where imagePoints = "[(0, 0)]" and math_inv = exact_inv
      and mapPoints = "[(0, 0)]" and mode = "''affine''" and yAxisMode = "''auto''"]
    computeTransformParams_errors [where imagePoints = "[(0, 0), (1, 1)]" and math_inv = exact_inv
      and mapPoints = "[(0, 0), (1, 1), (2, 2)]" and mode = "''affine''" and yAxisMode = "''auto''"]
    computeTransformParams_errors [where imagePoints = "[(0, 0), (1, 1)]" and math_inv = exact_inv
      and mapPoints = "[(0, 0), (1, 1)]" and mode = "''helmert''" and yAxisMode = "''auto''"]
  by simp

text \<open>
  Claim C3. In mode \<open>'similar'\<close> or \<open>'noshear'\<close> with \<open>yAxisMode = 'auto'\<close> the
  estimator returns exactly when the lengths are equal and at least two and both core
  fits succeed: the fit \<open>pA\<close> of the image points and the fit \<open>q\<close> of the Y-negated image
  points. Its result is \<open>pA\<close> when the sum of squared residuals of \<open>pA\<close> is at most that of
  \<open>convertFlipParam q\<close>, and \<open>convertFlipParam q\<close> otherwise; both sums are taken against the
  original image points. \<open>pA\<close> is what \<open>'same'\<close> returns and \<open>convertFlipParam q\<close> is what
  \<open>'opposite'\<close> returns. The residual of parameters \<open>p\<close> is the sum over the points of
  \<open>(X - Xpred)\<^sup>2 + (Y - Ypred)\<^sup>2\<close>, the prediction being \<open>forwardAffine p\<close>.
\<close>

theorem auto_choice:
  "(computeTransformParams math_inv imgPts mapPts ''similar'' ''auto'' = Inr r \<longleftrightarrow>
      2 \<le> length imgPts \<and> length mapPts = length imgPts \<and>
      (\<exists>pA q. computeSimilarCore imgPts mapPts = Inr pA
         \<and> computeSimilarCore (flipY imgPts) mapPts = Inr q
         \<and> r = (if sumOfSquaredResiduals pA imgPts mapPts
                      \<le> sumOfSquaredResiduals (convertFlipParam q) imgPts mapPts
                 then pA else convertFlipParam q))) \<and>
   (computeTransformParams math_inv imgPts mapPts ''noshear'' ''auto'' = Inr r \<longleftrightarrow>
      2 \<le> length imgPts \<and> length mapPts = length imgPts \<and>
      (\<exists>pA q. computeNoShearCore math_inv imgPts mapPts = Inr pA
         \<and> computeNoShearCore math_inv (flipY imgPts) mapPts = Inr q
         \<and> r = (if sumOfSquaredResiduals pA imgPts mapPts
                      \<le> sumOfSquaredResiduals (convertFlipParam q) imgPts mapPts
                 then pA else convertFlipParam q))) \<and>
   (computeTransformParams math_inv imgPts mapPts ''similar'' ''same'' = Inr r \<longleftrightarrow>
      2 \<le> length imgPts \<and> length mapPts = length imgPts \<and>
      computeSimilarCore imgPts mapPts = Inr r
      \<and> (\<exists>q. computeSimilarCore (flipY imgPts) mapPts = Inr q)) \<and>
   (computeTransformParams math_inv imgPts mapPts ''noshear'' ''same'' = Inr r \<longleftrightarrow>
      2 \<le> length imgPts \<and> length mapPts = length imgPts \<and>
      computeNoShearCore math_inv imgPts mapPts = Inr r
      \<and> (\<exists>q. computeNoShearCore math_inv (flipY imgPts) mapPts = Inr q)) \<and>
   (computeTransformParams math_inv imgPts mapPts ''similar'' ''opposite'' = Inr r \<longleftrightarrow>
      2 \<le> length imgPts \<and> length mapPts = length imgPts \<and>
      (\<exists>pA. computeSimilarCore imgPts mapPts = Inr pA)
      \<and> (\<exists>q. computeSimilarCore (flipY imgPts) mapPts = Inr q \<and> r = convertFlipParam q)) \<and>
   (computeTransformParams math_inv imgPts mapPts ''noshear'' ''opposite'' = Inr r \<longleftrightarrow>
      2 \<le> length imgPts \<and> length mapPts = length imgPts \<and>
      (\<exists>pA. computeNoShearCore math_inv imgPts mapPts = Inr pA)
      \<and> (\<exists>q. computeNoShearCore math_inv (flipY imgPts) mapPts = Inr q \<and> r = convertFlipParam q)) \<and>
   (\<forall>mode pA pB. (mode = ''similar'' \<or> mode = ''noshear'')
         \<and> computeTransformParams math_inv imgPts mapPts mode ''same'' = Inr pA
         \<and> computeTransformParams math_inv imgPts mapPts mode ''opposite'' = Inr pB \<longrightarrow>
       computeTransformParams math_inv imgPts mapPts mode ''auto''
         = Inr (if sumOfSquaredResiduals pA imgPts mapPts \<le> sumOfSquaredResiduals pB imgPts mapPts
                then pA else pB)) \<and>
   (\<forall>mode r. (mode = ''similar'' \<or> mode = ''noshear'')
         \<and> computeTransformParams math_inv imgPts mapPts mode ''auto'' = Inr r \<longrightarrow>
       (\<exists>pA pB. computeTransformParams math_inv imgPts mapPts mode ''same'' = Inr pA
         \<and> computeTransformParams math_inv imgPts mapPts mode ''opposite'' = Inr pB)) \<and>
   (\<forall>p. sumOfSquaredResiduals p imgPts mapPts =
       (\<Sum>i<length imgPts. (fst (mapPts ! i) - fst (forwardAffine p (imgPts ! i)))\<^sup>2
                           + (snd (mapPts ! i) - snd (forwardAffine p (imgPts ! i)))\<^sup>2))"
  (is "?sa \<and> ?na \<and> ?ss \<and> ?ns \<and> ?so \<and> ?no \<and> ?A \<and> ?B \<and> ?C")
proof -
  have sa: ?sa unfolding params_similar similar_auto ..
  have na: ?na unfolding params_noshear noshear_auto ..
  have ss: ?ss unfolding params_similar similar_same ..
  have ns: ?ns unfolding params_noshear noshear_same ..
  have so: ?so unfolding params_similar similar_opposite ..
  have no: ?no unfolding params_noshear noshear_opposite ..
  have sse: ?C
    using sumOfSquaredResiduals_sum by blast
  have a: "computeTransformParams math_inv imgPts mapPts mode ''auto''
         = Inr (if sumOfSquaredResiduals pA imgPts mapPts \<le> sumOfSquaredResiduals pB imgPts mapPts
                then pA else pB)"
    if "mode = ''similar'' \<or> mode = ''noshear''"
      and "computeTransformParams math_inv imgPts mapPts mode ''same'' = Inr pA"
      and "computeTransformParams math_inv imgPts mapPts mode ''opposite'' = Inr pB"
    for mode pA pB
    using that(1)
  proof
    assume m: "mode = ''similar''"
    from that(2,3) show ?thesis
      unfolding m params_similar similar_same similar_opposite similar_auto by blast
  next
    assume m: "mode = ''noshear''"
    from that(2,3) show ?thesis
      unfolding m params_noshear noshear_same noshear_opposite noshear_auto by blast
  qed
  have b: "\<exists>pA pB. computeTransformParams math_inv imgPts mapPts mode ''same'' = Inr pA
         \<and> computeTransformParams math_inv imgPts mapPts mode ''opposite'' = Inr pB"
    if "mode = ''similar'' \<or> mode = ''noshear''"
      and "computeTransformParams math_inv imgPts mapPts mode ''auto'' = Inr r"
    for mode r
    using that(1)
  proof
    assume m: "mode = ''similar''"
    from that(2) show ?thesis
      unfolding m params_similar similar_same similar_opposite similar_auto by blast
  next
    assume m: "mode = ''noshear''"
    from that(2) show ?thesis
      unfolding m params_noshear noshear_same noshear_opposite noshear_auto by blast
  qed
  have A: ?A using a by blast
  have B: ?B using b by blast
  show ?thesis
    by (intro conjI sa na ss ns so no A B sse)
qed


theorem auto_choice_witness:
  "computeNoShearCore exact_inv [(0, 0), (1, 1)] [(0, 0), (1, - 1)]
     = Inr (0, 0, 1 / 2, 0, 0, - (1 / 2)) \<and>
   computeNoShearCore exact_inv (flipY [(0, 0), (1, 1)]) [(0, 0), (1, - 1)]
     = Inr (1, 0, 0, 0, 1, 0) \<and>
   sumOfSquaredResiduals (0, 0, 1 / 2, 0, 0, - (1 / 2)) [(0, 0), (1, 1)] [(0, 0), (1, - 1)] = 1 \<and>
   sumOfSquaredResiduals (convertFlipParam (1, 0, 0, 0, 1, 0)) [(0, 0), (1, 1)] [(0, 0), (1, - 1)] = 0 \<and>
   computeTransformParams exact_inv [(0, 0), (1, 1)] [(0, 0), (1, - 1)] ''noshear'' ''auto''
     = Inr (1, 0, 0, 0, - 1, 0)"
proof -
  have cf: "convertFlipParam (1, 0, 0, 0, 1, 0) = (1, 0, 0, 0, - 1, 0 :: real)"
    by simp
  have eb: "sumOfSquaredResiduals (convertFlipParam (1, 0, 0, 0, 1, 0))
      [(0, 0), (1, 1)] [(0, 0), (1, - 1)] = 0"
    unfolding cf by (rule residual_example_flip)
  have pick: "(1, 0, 0, 0, - 1, 0 :: real) =
      (if sumOfSquaredResiduals (0, 0, 1 / 2, 0, 0, - (1 / 2)) [(0, 0), (1, 1)] [(0, 0), (1, - 1)]
            \<le> sumOfSquaredResiduals (convertFlipParam (1, 0, 0, 0, 1, 0))
                 [(0, 0), (1, 1)] [(0, 0), (1, - 1)]
       then (0, 0, 1 / 2, 0, 0, - (1 / 2)) else convertFlipParam (1, 0, 0, 0, 1, 0))"
    unfolding eb residual_example_same by simp
  note ac = auto_choice [where math_inv = exact_inv and imgPts = "[(0, 0), (1, 1)]"
      and mapPts = "[(0, 0), (1, - 1)]" and r = "(1, 0, 0, 0, - 1, 0)"]
  note na = ac [THEN conjunct2, THEN conjunct1]
  have ex: "\<exists>pA q. computeNoShearCore exact_inv [(0, 0), (1, 1)] [(0, 0), (1, - 1)] = Inr pA
      \<and> computeNoShearCore exact_inv (flipY [(0, 0), (1, 1)]) [(0, 0), (1, - 1)] = Inr q
      \<and> (1, 0, 0, 0, - 1, 0) =
          (if sumOfSquaredResiduals pA [(0, 0), (1, 1)] [(0, 0), (1, - 1)]
                \<le> sumOfSquaredResiduals (convertFlipParam q) [(0, 0), (1, 1)] [(0, 0), (1, - 1)]
           then pA else convertFlipParam q)"
    by (rule exI [of _ "(0, 0, 1 / 2, 0, 0, - (1 / 2))"], rule exI [of _ "(1, 0, 0, 0, 1, 0)"])
      (intro conjI noshear_example_same noshear_example_flip pick)
  have rhs: "2 \<le> length [(0, 0), (1, 1 :: real)]
      \<and> length [(0, 0), (1, - 1 :: real)] = length [(0, 0), (1, 1 :: real)]
      \<and> (\<exists>pA q. computeNoShearCore exact_inv [(0, 0), (1, 1)] [(0, 0), (1, - 1)] = Inr pA
      \<and> computeNoShearCore exact_inv (flipY [(0, 0), (1, 1)]) [(0, 0), (1, - 1)] = Inr q
      \<and> (1, 0, 0, 0, - 1, 0) =
          (if sumOfSquaredResiduals pA [(0, 0), (1, 1)] [(0, 0), (1, - 1)]
                \<le> sumOfSquaredResiduals (convertFlipParam q) [(0, 0), (1, 1)] [(0, 0), (1, - 1)]
           then pA else convertFlipParam q))"
    by (intro conjI example_lengths [THEN conjunct1] example_lengths [THEN conjunct2] ex)
  note res = na [THEN iffD2, OF rhs]
  show ?thesis
    by (intro conjI noshear_example_same noshear_example_flip residual_example_same eb res)
qed

text \<open>
  Claim C4. \<open>convertFlipParam\<close> negates \<open>B\<close> and \<open>E\<close> and keeps \<open>A, C, D, F\<close>;
  applying the converted parameters to \<open>(x, y)\<close> is applying the original ones to
  \<open>(x, - y)\<close>. With \<open>yAxisMode = 'opposite'\<close> the estimator returns the converted core
  fit of the Y-negated image points, in mode \<open>'similar'\<close> and in mode \<open>'noshear'\<close>,
  whenever the lengths are equal and at least two and both core fits succeed.
\<close>

theorem flip_conversion:
  "forwardAffine (convertFlipParam (A, B, C, D, E, F)) (x, y) = forwardAffine (A, B, C, D, E, F) (x, - y) \<and>
   convertFlipParam (A, B, C, D, E, F) = (A, - B, C, D, - E, F) \<and>
   (\<forall>r. computeTransformParams math_inv imgPts mapPts ''similar'' ''opposite'' = Inr r \<longrightarrow>
      (\<exists>q. computeSimilarCore (flipY imgPts) mapPts = Inr q \<and> r = convertFlipParam q)) \<and>
   (\<forall>r. computeTransformParams math_inv imgPts mapPts ''noshear'' ''opposite'' = Inr r \<longrightarrow>
      (\<exists>q. computeNoShearCore math_inv (flipY imgPts) mapPts = Inr q \<and> r = convertFlipParam q)) \<and>
   (\<forall>pA q. 2 \<le> length imgPts \<and> length mapPts = length imgPts
       \<and> computeSimilarCore imgPts mapPts = Inr pA
       \<and> computeSimilarCore (flipY imgPts) mapPts = Inr q \<longrightarrow>
      computeTransformParams math_inv imgPts mapPts ''similar'' ''opposite''
        = Inr (convertFlipParam q)) \<and>
   (\<forall>pA q. 2 \<le> length imgPts \<and> length mapPts = length imgPts
       \<and> computeNoShearCore math_inv imgPts mapPts = Inr pA
       \<and> computeNoShearCore math_inv (flipY imgPts) mapPts = Inr q \<longrightarrow>
      computeTransformParams math_inv imgPts mapPts ''noshear'' ''opposite''
        = Inr (convertFlipParam q))"
  (is "?fw \<and> ?cv \<and> ?s1 \<and> ?n1 \<and> ?s2 \<and> ?n2")
proof -
  have fw: ?fw by simp
  have cv: ?cv by simp
  have s1: ?s1 unfolding params_similar similar_opposite by blast
  have n1: ?n1 unfolding params_noshear noshear_opposite by blast
  have s2: ?s2 unfolding params_similar similar_opposite by blast
  have n2: ?n2 unfolding params_noshear noshear_opposite by blast
  from fw cv s1 n1 s2 n2 show ?thesis by blast
qed

theorem flip_conversion_witness:
  "forwardAffine (convertFlipParam (2, 3, 4, 5, 6, 7)) (1, 2) = forwardAffine (2, 3, 4, 5, 6, 7) (1, - 2) \<and>
   computeNoShearCore exact_inv (flipY [(0, 0), (1, 1)]) [(0, 0), (1, - 1)] = Inr (1, 0, 0, 0, 1, 0) \<and>
   computeTransformParams exact_inv [(0, 0), (1, 1)] [(0, 0), (1, - 1)] ''noshear'' ''opposite''
     = Inr (1, 0, 0, 0, - 1, 0)"
proof -
  note fc = flip_conversion [where A = 2 and B = 3 and C = 4 and D = 5 and E = 6 and F = 7
      and x = 1 and y = 2 and math_inv = exact_inv and imgPts = "[(0, 0), (1, 1)]"
      and mapPts = "[(0, 0), (1, - 1)]"]
  from fc have fw: "forwardAffine (convertFlipParam (2, 3, 4, 5, 6, 7)) (1, 2)
      = forwardAffine (2, 3, 4, 5, 6, 7) (1, - 2)"
    by (rule conjunct1)
  from fc noshear_example_same noshear_example_flip example_lengths
  have "computeTransformParams exact_inv [(0, 0), (1, 1)] [(0, 0), (1, - 1)] ''noshear'' ''opposite''
     = Inr (convertFlipParam (1, 0, 0, 0, 1, 0))"
    by blast
  with fw noshear_example_flip show ?thesis by simp
qed

text \<open>
  Claim C5, as amended. Parameters returned in mode \<open>'noshear'\<close> have zero second and
  fourth components. The fifth component equals the first for \<open>yAxisMode = 'same'\<close>,
  is the negation of the first for \<open>'opposite'\<close>, and is one of the two in every case.
\<close>

theorem noshear_form:
  assumes "computeTransformParams math_inv imgPts mapPts ''noshear'' y = Inr (A, B, C, D, E, F)"
  shows "B = 0 \<and> D = 0 \<and> (y = ''same'' \<longrightarrow> E = A) \<and> (y = ''opposite'' \<longrightarrow> E = - A)
    \<and> (E = A \<or> E = - A)"
proof -
  from assms have r: "computeNoShearAsAffine math_inv imgPts mapPts y = Inr (A, B, C, D, E, F)"
    unfolding params_noshear by blast
  then obtain pA q where
    pA: "computeNoShearCore math_inv imgPts mapPts = Inr pA" and
    q: "computeNoShearCore math_inv (flipY imgPts) mapPts = Inr q"
    unfolding computeNoShearAsAffine_def then_do_Inr_iff by blast
  from computeNoShearCore_form [OF pA] obtain a c f where pA': "pA = (a, 0, c, 0, a, f)" by blast
  from computeNoShearCore_form [OF q] obtain a' c' f' where q': "q = (a', 0, c', 0, a', f')" by blast
  from r show ?thesis
    unfolding computeNoShearAsAffine_def pA q pA' q'
    by (simp add: Let_def split: if_splits)
qed

theorem noshear_form_witness:
  "computeTransformParams exact_inv [(0, 0), (1, 1)] [(0, 0), (1, - 1)] ''noshear'' ''auto''
     = Inr (1, 0, 0, 0, - 1, 0) \<and> (0::real) = 0 \<and> ((- 1::real) = 1 \<or> (- 1::real) = - 1)"
proof -
  have a: "computeTransformParams exact_inv [(0, 0), (1, 1)] [(0, 0), (1, - 1)] ''noshear'' ''auto''
     = Inr (1, 0, 0, 0, - 1, 0)"
    by (simp add: computeTransformParams_def computeNoShearAsAffine_def
        noshear_example_same noshear_example_flip
        residual_example_same residual_example_flip del: sumOfSquaredResiduals.simps)
  from a noshear_form [OF a] show ?thesis by simp
qed

text \<open>
  Claim C5 as stated fails for \<open>yAxisMode = 'opposite'\<close>: on the worked example the
  fifth component is \<open>- 1\<close> and the first is \<open>1\<close>.
\<close>

theorem noshear_opposite_counterexample:
  "computeTransformParams exact_inv [(0, 0), (1, 1)] [(0, 0), (1, - 1)] ''noshear'' ''opposite''
     = Inr (1, 0, 0, 0, - 1, 0)"
  by (simp add: computeTransformParams_def computeNoShearAsAffine_def
      noshear_example_same noshear_example_flip)




section \<open>The CRS scorer\<close>

text \<open>
  Claim C10. With point sequences of equal length and an empty candidate list,
  \<open>findBestCRS\<close> raises (the reduction of an empty key array without an initial value)
  and returns no identifier.
\<close>

theorem findBestCRS_empty_candidates:
  "length lnglatPoints = length imagePoints \<Longrightarrow>
   findBestCRS math_inv proj4List forward defs lnglatPoints imagePoints [] mode yAxisMode
     = Inl TypeError"
  by (simp add: findBestCRS_def object_keys_def array_reduce_def)

theorem findBestCRS_empty_candidates_witness:
  "length [(135, 35), (136, 36 :: real)] = length [(0, 0), (1, 1 :: real)] \<and>
   findBestCRS exact_inv (\<lambda>_. None) (\<lambda>d c p. Inr p) (\<lambda>_. None)
     [(135, 35), (136, 36)] [(0, 0), (1, 1)] [] ''affine'' ''auto'' = Inl TypeError"
  using findBestCRS_empty_candidates [where lnglatPoints = "[(135, 35), (136, 36)]"
      and imagePoints = "[(0, 0), (1, 1)]" and math_inv = exact_inv and proj4List = "\<lambda>_. None"
      and forward = "\<lambda>d c p. Inr p" and defs = "\<lambda>_. None" and mode = "''affine''"
      and yAxisMode = "''auto''"]
  by simp

text \<open>
  Claim C2, as amended. When the point sequences have equal length, the candidate list
  is not empty and does not hold the key \<open>__proto__\<close>, and every pass of the loop
  succeeds, \<open>findBestCRS\<close> returns a candidate whose recorded RMSE is the minimum over
  all candidates. Among the candidates that attain the minimum it returns the last one
  in the key order of the score object: every key after it has a strictly larger RMSE.
  That order is the order of the candidate list when the candidates are distinct and
  none is an array index. Every recorded RMSE is \<open>computeRMSE\<close> of the projected points
  against the image points sent through \<open>forwardAffine\<close> with the parameters fitted
  from the image points to the projected points.
\<close>

theorem findBestCRS_minimum:
  assumes loop: "scoreLoop math_inv proj4List forward lnglatPoints imagePoints mode yAxisMode
                   defs [] crses = Inr (defs', rmse)"
    and len: "length lnglatPoints = length imagePoints"
    and ne: "crses \<noteq> []"
    and proto: "''__proto__'' \<notin> set crses"
  shows "\<exists>c rc.
     findBestCRS math_inv proj4List forward defs lnglatPoints imagePoints crses mode yAxisMode = Inr c
     \<and> c \<in> set crses \<and> map_of rmse c = Some rc
     \<and> (\<forall>k\<in>set crses. \<exists>rk. map_of rmse k = Some rk \<and> rc \<le> rk)
     \<and> (\<exists>pre post. object_keys rmse = pre @ c # post
           \<and> (\<forall>k\<in>set post. \<exists>rk. map_of rmse k = Some rk \<and> rc < rk))
     \<and> (distinct crses \<and> (\<forall>k\<in>set crses. \<not> is_array_index k) \<longrightarrow> object_keys rmse = crses)
     \<and> (\<forall>k r. map_of rmse k = Some r \<longrightarrow>
           (\<exists>d mapPts params.
              map_result (forward d k) lnglatPoints = Inr mapPts
              \<and> computeTransformParams math_inv imagePoints mapPts mode yAxisMode = Inr params
              \<and> computeRMSE mapPts (map (forwardAffine params) imagePoints) = Inr r))"
proof -
  let ?pick = "\<lambda>a b. if js_less (map_of rmse a) (map_of rmse b) then a else b"
  define sc where "sc k = the (map_of rmse k)" for k
  have keys: "fst ` set rmse = set crses"
    using scoreLoop_keys [OF loop] proto by auto
  have okeys: "set (object_keys rmse) = set crses"
    unfolding set_object_keys keys ..
  have look: "map_of rmse k = Some (sc k)" if "k \<in> set crses" for k
  proof -
    from that keys have "k \<in> fst ` set rmse" by simp
    then have "map_of rmse k \<noteq> None" by (simp add: map_of_eq_None_iff)
    then show ?thesis unfolding sc_def by auto
  qed
  from okeys ne obtain a ks where aks: "object_keys rmse = a # ks"
    by (cases "object_keys rmse") auto
  have aks_set: "set (a # ks) = set crses"
    using okeys unfolding aks .
  let ?c = "foldl ?pick a ks"
  have res: "findBestCRS math_inv proj4List forward defs lnglatPoints imagePoints crses mode yAxisMode
      = Inr ?c"
    using len by (simp add: findBestCRS_def loop array_reduce_def aks)
  have all: "\<forall>k\<in>set (a # ks). map_of rmse k = Some (sc k)"
    using look unfolding aks_set by blast
  from foldl_pick_last_min [OF all] obtain pre post where
    dec: "a # ks = pre @ ?c # post" and
    pre: "\<forall>k\<in>set pre. sc ?c \<le> sc k" and
    post: "\<forall>k\<in>set post. sc ?c < sc k"
    by blast
  have "?c \<in> set (a # ks)"
    by (rule foldl_pick_mem)
  then have cmem: "?c \<in> set crses"
    unfolding aks_set .
  have min: "\<forall>k\<in>set crses. \<exists>rk. map_of rmse k = Some rk \<and> sc ?c \<le> rk"
  proof
    fix k assume k: "k \<in> set crses"
    then have "k \<in> set (a # ks)" unfolding aks_set .
    then have "k \<in> set pre \<or> k = ?c \<or> k \<in> set post"
      unfolding dec by auto
    with pre post have "sc ?c \<le> sc k" by force
    with look [OF k] show "\<exists>rk. map_of rmse k = Some rk \<and> sc ?c \<le> rk" by blast
  qed
  have last: "\<exists>pre post. object_keys rmse = pre @ ?c # post
      \<and> (\<forall>k\<in>set post. \<exists>rk. map_of rmse k = Some rk \<and> sc ?c < rk)"
  proof -
    have "\<forall>k\<in>set post. \<exists>rk. map_of rmse k = Some rk \<and> sc ?c < rk"
    proof
      fix k assume k: "k \<in> set post"
      then have "k \<in> set (a # ks)" unfolding dec by simp
      then have "k \<in> set crses" unfolding aks_set .
      from look [OF this] post k show "\<exists>rk. map_of rmse k = Some rk \<and> sc ?c < rk" by blast
    qed
    with dec show ?thesis unfolding aks by blast
  qed
  have order: "distinct crses \<and> (\<forall>k\<in>set crses. \<not> is_array_index k) \<longrightarrow> object_keys rmse = crses"
  proof
    assume h: "distinct crses \<and> (\<forall>k\<in>set crses. \<not> is_array_index k)"
    then have "map fst rmse = crses"
      using scoreLoop_order [OF loop _ proto] by simp
    moreover from h keys have "\<forall>k\<in>fst ` set rmse. \<not> is_array_index k" by simp
    ultimately show "object_keys rmse = crses"
      using object_keys_plain [of rmse] by simp
  qed
  have pipe: "\<forall>k r. map_of rmse k = Some r \<longrightarrow>
           (\<exists>d mapPts params.
              map_result (forward d k) lnglatPoints = Inr mapPts
              \<and> computeTransformParams math_inv imagePoints mapPts mode yAxisMode = Inr params
              \<and> computeRMSE mapPts (map (forwardAffine params) imagePoints) = Inr r)"
  proof (intro allI impI)
    fix k r assume "map_of rmse k = Some r"
    then have "(k, r) \<in> set rmse" by (rule map_of_SomeD)
    from scoreLoop_values [OF loop this] obtain d0 d1 where
      "scoreCandidate math_inv proj4List forward lnglatPoints imagePoints mode yAxisMode d0 k
         = Inr (d1, r)"
      by auto
    from scoreCandidate_pipeline [OF this]
    show "\<exists>d mapPts params.
              map_result (forward d k) lnglatPoints = Inr mapPts
              \<and> computeTransformParams math_inv imagePoints mapPts mode yAxisMode = Inr params
              \<and> computeRMSE mapPts (map (forwardAffine params) imagePoints) = Inr r"
      by blast
  qed
  show ?thesis
    by (rule exI [of _ ?c], rule exI [of _ "sc ?c"])
      (intro conjI res cmem look [OF cmem] min last order pipe)
qed

theorem findBestCRS_minimum_witness:
  "scoreLoop exact_inv [''A'' \<mapsto> (''A'', ''id''), ''B'' \<mapsto> (''B'', ''stretch'')] stub_forward
     [(0, 0), (1, 1)] [(0, 0), (1, 1)] ''noshear'' ''same'' Map.empty [] [''A'', ''B'']
     = Inr ([''A'' \<mapsto> ''id'', ''B'' \<mapsto> ''stretch''], [(''A'', 0), (''B'', sqrt (1 / 8))]) \<and>
   findBestCRS exact_inv [''A'' \<mapsto> (''A'', ''id''), ''B'' \<mapsto> (''B'', ''stretch'')] stub_forward
     Map.empty [(0, 0), (1, 1)] [(0, 0), (1, 1)] [''A'', ''B''] ''noshear'' ''same'' = Inr ''A''"
proof -
  have len: "length [(0, 0), (1, 1 :: real)] = length [(0, 0), (1, 1 :: real)]" by simp
  have ne: "[''A'', ''B''] \<noteq> []" by simp
  have proto: "''__proto__'' \<notin> set [''A'', ''B'']" by simp
  from findBestCRS_minimum [OF stretch_loop len ne proto] obtain c rc where
    res: "findBestCRS exact_inv [''A'' \<mapsto> (''A'', ''id''), ''B'' \<mapsto> (''B'', ''stretch'')] stub_forward
      Map.empty [(0, 0), (1, 1)] [(0, 0), (1, 1)] [''A'', ''B''] ''noshear'' ''same'' = Inr c" and
    mem: "c \<in> set [''A'', ''B'']" and
    rc: "map_of [(''A'', 0), (''B'', sqrt (1 / 8))] c = Some rc" and
    min: "\<forall>k\<in>set [''A'', ''B'']. \<exists>rk. map_of [(''A'', 0), (''B'', sqrt (1 / 8))] k = Some rk \<and> rc \<le> rk"
    by blast
  from min have "rc \<le> 0" by simp
  with mem rc have "c = ''A''" by (auto split: if_splits)
  with res stretch_loop show ?thesis by simp
qed

text \<open>
  Claim C2 as stated fails on a tie: with two candidates of equal RMSE \<open>0\<close> the
  second one, not the first, is returned.
\<close>

theorem findBestCRS_tie_counterexample:
  "scoreLoop exact_inv Map.empty stub_forward [(0, 0), (1, 1)] [(0, 0), (1, 1)]
     ''noshear'' ''same'' [''A'' \<mapsto> ''id'', ''B'' \<mapsto> ''id''] [] [''A'', ''B'']
     = Inr ([''A'' \<mapsto> ''id'', ''B'' \<mapsto> ''id''], [(''A'', 0), (''B'', 0)]) \<and>
   findBestCRS exact_inv Map.empty stub_forward [''A'' \<mapsto> ''id'', ''B'' \<mapsto> ''id'']
     [(0, 0), (1, 1)] [(0, 0), (1, 1)] [''A'', ''B''] ''noshear'' ''same'' = Inr ''B''"
proof -
  have keys: "object_keys [(''A'', 0 :: real), (''B'', 0)] = [''A'', ''B'']"
    by (simp add: object_keys_def is_array_index_def is_digit_def)
  show ?thesis
    unfolding findBestCRS_def tie_loop by (simp add: keys array_reduce_def)
qed

end
